theory Spec2Isabelle
  imports Main
begin

section \<open>TPU device-to-device copy (tensorflow/core/tpu/tpu_node_device.cc)\<close>

text \<open>
  The theory embeds \<^verbatim>\<open>TpuDeviceToDeviceCopy\<close> and its helper
  \<^verbatim>\<open>CheckIfTPUInitialized\<close>. The function talks to collaborators whose code
  lives elsewhere (streams, the transfer manager, the XLA tensor, the platform): every
  answer a collaborator gives is a field of the record \<open>env\<close>, and every call that
  changes something outside the function is appended to a trace, in program order.
\<close>

subsection \<open>Status values\<close>

datatype Code =
    CANCELLED | UNKNOWN | INVALID_ARGUMENT | DEADLINE_EXCEEDED | NOT_FOUND
  | ALREADY_EXISTS | PERMISSION_DENIED | UNAUTHENTICATED | RESOURCE_EXHAUSTED
  | FAILED_PRECONDITION | ABORTED | OUT_OF_RANGE | UNIMPLEMENTED | INTERNAL
  | UNAVAILABLE | DATA_LOSS

type_synonym DataType = nat

text \<open>A message is the sequence of the pieces streamed into it.\<close>

datatype part = Str string | Num nat | DataTypeString DataType

datatype error = Error Code "part list"

text \<open>A \<^verbatim>\<open>Status\<close> is OK (\<open>None\<close>) or an error; a \<^verbatim>\<open>StatusOr<T>\<close> is \<open>error + T\<close>.\<close>

type_synonym Status = "error option"

abbreviation OK :: Status where
  "OK \<equiv> None"

definition ok :: "Status \<Rightarrow> bool" where
  "ok st = (st = None)"

text \<open>
  Modelled from the spec: the macro \<^verbatim>\<open>TF_RET_CHECK\<close> is not defined in the file.
  A failed check makes the enclosing function return an internal error that carries the
  text of the condition and whatever was streamed after it.
\<close>

definition RET_CHECK_failure :: "string \<Rightarrow> part list \<Rightarrow> error" where
  "RET_CHECK_failure cond extra = Error INTERNAL (Str cond # extra)"

subsection \<open>Streams, buffers, tensors\<close>

datatype StreamExecutor = StreamExecutor (device_ordinal: int)

datatype Stream = Stream (stream_id: nat) (parent: StreamExecutor)

datatype Event = Event StreamExecutor

datatype Shape = ArrayShape "nat list" | TupleShape "Shape list"

fun IsTuple :: "Shape \<Rightarrow> bool" where
  "IsTuple (TupleShape _) = True"
| "IsTuple (ArrayShape _) = False"

type_synonym ShapeIndex = "nat list"

record DeviceMemoryBase =
  opaque :: nat
  size_bytes :: nat

text \<open>
  Of a \<^verbatim>\<open>ShapedBuffer\<close> the function uses \<^verbatim>\<open>on_device_shape()\<close>,
  \<^verbatim>\<open>buffers().leaves()\<close> (the leaves with their indices, in iteration order) and
  \<^verbatim>\<open>buffer(index)\<close>. The lookup is taken as the class gives it: a total function of
  the index.
\<close>

record ShapedBuffer =
  on_device_shape :: Shape
  leaves :: "(ShapeIndex \<times> DeviceMemoryBase) list"
  buffer :: "ShapeIndex \<Rightarrow> DeviceMemoryBase"

record XlaTensor =
  shaped_buffer :: "ShapedBuffer option"
  definition_event :: "Event option"
  streams_defined_on :: "Stream list"

definition has_shaped_buffer :: "XlaTensor \<Rightarrow> bool" where
  "has_shaped_buffer t = (shaped_buffer t \<noteq> None)"

text \<open>
  A tensor: \<open>xla_tensor\<close> is what \<^verbatim>\<open>XlaTensor::FromTensor\<close> returns for it
  (\<open>None\<close> for \<^verbatim>\<open>nullptr\<close>), \<open>CanUseDMA\<close> what \<^verbatim>\<open>DMAHelper::CanUseDMA\<close> answers.
\<close>

record Tensor =
  dtype :: DataType
  shape :: "nat list"
  xla_tensor :: "XlaTensor option"
  CanUseDMA :: bool

text \<open>
  Modelled from the spec: the class \<^verbatim>\<open>TensorShape\<close> is not in the file. A shape is the
  list of its dimension sizes and has as many elements as their product.
\<close>

definition num_elements :: "nat list \<Rightarrow> nat" where
  "num_elements dims = prod_list dims"

subsection \<open>The collaborators\<close>

text \<open>
  The destination context's compute stream, its host-to-device stream and
  \<^verbatim>\<open>device_to_device_stream(0)\<close> are dereferenced by the function without a check, so
  they are streams here; the source context's compute stream, the substream handed out by
  the master stream and \<^verbatim>\<open>GetDeviceToDeviceStream()\<close> are checked against
  \<^verbatim>\<open>nullptr\<close>, so they are optional.
\<close>

record env =
  src_name :: string
  dst_name :: string
  Initialized :: bool
  should_use_substream :: bool
  input_tensor :: Tensor
  src_stream :: "Stream option"
  dst_stream :: Stream
  IsSameSharedMemoryLocation :: "Stream \<Rightarrow> Stream \<Rightarrow> bool"
  device_to_device_stream :: "nat \<Rightarrow> Stream"
  GetOrCreateSubStream :: "Stream \<Rightarrow> Stream option"
  GetDeviceToDeviceStream :: "Stream option"
  host_to_device_stream :: Stream
  shape_representation_fn :: "nat list \<Rightarrow> DataType \<Rightarrow> bool \<Rightarrow> error + Shape"
  AllocateShapedBuffer :: "DataType \<Rightarrow> Shape \<Rightarrow> int \<Rightarrow> error + ShapedBuffer"
  CanShapedBufferBeAccessedNow :: "StreamExecutor \<Rightarrow> ShapedBuffer \<Rightarrow> bool"
  EnqueueOnTpuDeviceSendRecvLocal ::
    "Stream \<Rightarrow> DeviceMemoryBase \<Rightarrow> DeviceMemoryBase \<Rightarrow> Status"
  WriteTupleIndexTablesAsync :: "Stream \<Rightarrow> ShapedBuffer \<Rightarrow> Status"
  Event_Init :: bool

subsection \<open>The state the function changes\<close>

text \<open>Calls on collaborators, as they are made.\<close>

datatype event =
    CallGetOrCreateSubStream Stream
  | CallReturnSubStream Stream Stream
  | CallAllocateShapedBuffer DataType Shape int
  | CallWaitForDefinitionEventOnStream Stream
  | CallThenWaitFor Stream Stream
  | CallEnqueueOnTpuDeviceSendRecvLocal Stream DeviceMemoryBase DeviceMemoryBase
  | CallWriteTupleIndexTablesAsync Stream
  | CallThenRecordEvent Stream Event
  | CallThenDoHostCallback Stream
  | TensorReferenceRef
  | TensorReferenceUnref

text \<open>
  The closure given to \<^verbatim>\<open>ThenDoHostCallback\<close> captures the master stream (or
  \<^verbatim>\<open>nullptr\<close>) and the chosen stream, besides the reference and \<^verbatim>\<open>done\<close>.
\<close>

datatype host_callback = HostCallback "Stream option" Stream

text \<open>
  \<open>output_tensor\<close> is \<^verbatim>\<open>*output\<close>, \<open>done_calls\<close> the statuses \<^verbatim>\<open>done\<close> was called with,
  \<open>input_refcount\<close> the reference count of the input's buffer, \<open>host_callbacks\<close> the
  callbacks attached to streams and not yet run.
\<close>

record state =
  output_tensor :: Tensor
  trace :: "event list"
  done_calls :: "Status list"
  input_refcount :: int
  host_callbacks :: "(Stream \<times> host_callback) list"

definition emit :: "event \<Rightarrow> state \<Rightarrow> state" where
  "emit ev s = s\<lparr>trace := trace s @ [ev]\<rparr>"

definition call_done :: "Status \<Rightarrow> state \<Rightarrow> state" where
  "call_done st s = s\<lparr>done_calls := done_calls s @ [st]\<rparr>"

text \<open>
  Modelled from the spec: the class \<^verbatim>\<open>Tensor\<close> is not in the file. The assignment
  \<^verbatim>\<open>*output = *input\<close> is "a trivial value copy of the tensor's metadata": the
  destination tensor takes the value of the input tensor and from then on shares the
  input's backing buffer. The buffer is counted by its holders, and the destination,
  which did not hold it before, is one more: the reference count goes up by one.
\<close>

definition assign_output :: "Tensor \<Rightarrow> state \<Rightarrow> state" where
  "assign_output t s = s\<lparr>output_tensor := t, input_refcount := input_refcount s + 1\<rparr>"

text \<open>
  \<^verbatim>\<open>xla_output\<close> points into the destination tensor: a method that changes the XLA
  tensor changes what the tensor holds.
\<close>

definition update_xla_output :: "(XlaTensor \<Rightarrow> XlaTensor) \<Rightarrow> state \<Rightarrow> state" where
  "update_xla_output f s =
     s\<lparr>output_tensor :=
         (output_tensor s)\<lparr>xla_tensor := map_option f (xla_tensor (output_tensor s))\<rparr>\<rparr>"

text \<open>
  Modelled from the spec: the class \<^verbatim>\<open>XlaTensor\<close> is not in the file. A successful
  \<^verbatim>\<open>AllocateShapedBuffer\<close> leaves the tensor with the new buffers ("destination buffer
  exists with all leaves allocated ... and no definition event yet");
  \<^verbatim>\<open>ResetDefinitionEvent\<close> sets the definition event to the new event, "replacing any
  prior one", on the stream given.
\<close>

definition set_shaped_buffer :: "ShapedBuffer \<Rightarrow> XlaTensor \<Rightarrow> XlaTensor" where
  "set_shaped_buffer b t = t\<lparr>shaped_buffer := Some b\<rparr>"

definition ResetDefinitionEvent :: "Event \<Rightarrow> Stream \<Rightarrow> XlaTensor \<Rightarrow> XlaTensor" where
  "ResetDefinitionEvent ev st t = t\<lparr>definition_event := Some ev, streams_defined_on := [st]\<rparr>"

text \<open>
  Modelled from the spec: the class \<^verbatim>\<open>TensorReference\<close> is not in the file. The
  reference count of the source is "incremented at enqueue and decremented exactly once
  at completion": constructing the reference adds one, \<^verbatim>\<open>Unref\<close> takes one away.
\<close>

definition TensorReference :: "state \<Rightarrow> state" where
  "TensorReference s = emit TensorReferenceRef (s\<lparr>input_refcount := input_refcount s + 1\<rparr>)"

definition Unref :: "state \<Rightarrow> state" where
  "Unref s = emit TensorReferenceUnref (s\<lparr>input_refcount := input_refcount s - 1\<rparr>)"

subsection \<open>CheckIfTPUInitialized\<close>

definition CheckIfTPUInitialized :: "env \<Rightarrow> Status" where
  "CheckIfTPUInitialized e =
     (if \<not> Initialized e
      then Some (Error FAILED_PRECONDITION [Str ''The TPU system has not been initialized.''])
      else OK)"

subsection \<open>The substream cleanup and the host callback\<close>

text \<open>The body shared by the cleanup lambda and the host callback.\<close>

definition return_substream_body :: "Stream option \<Rightarrow> Stream \<Rightarrow> state \<Rightarrow> state" where
  "return_substream_body device_to_device_master_stream dst_device_to_device_stream s =
     (case device_to_device_master_stream of
        Some master \<Rightarrow> emit (CallReturnSubStream master dst_device_to_device_stream) s
      | None \<Rightarrow> s)"

text \<open>
  A \<^verbatim>\<open>gtl::Cleanup\<close> runs its body when it goes out of scope unless it was released.
\<close>

datatype Cleanup = Armed "Stream option" Stream | Released

fun run_cleanup :: "Cleanup \<Rightarrow> state \<Rightarrow> state" where
  "run_cleanup (Armed master sub) s = return_substream_body master sub s"
| "run_cleanup Released s = s"

definition ThenDoHostCallback :: "Stream \<Rightarrow> host_callback \<Rightarrow> state \<Rightarrow> state" where
  "ThenDoHostCallback st cb s =
     (emit (CallThenDoHostCallback st) s)\<lparr>host_callbacks := host_callbacks s @ [(st, cb)]\<rparr>"

fun run_host_callback :: "host_callback \<Rightarrow> state \<Rightarrow> state" where
  "run_host_callback (HostCallback master sub) s =
     call_done OK (Unref (return_substream_body master sub s))"

text \<open>
  Modelled from the spec: the stream runtime is not in the file. A callback attached to a
  stream runs once, after the operations enqueued on the stream before it; running the
  attached callbacks, oldest first, empties the list.
\<close>

definition run_host_callbacks :: "state \<Rightarrow> state" where
  "run_host_callbacks s =
     fold (\<lambda>(st, cb). run_host_callback cb) (host_callbacks s) (s\<lparr>host_callbacks := []\<rparr>)"

subsection \<open>The leaf loop\<close>

fun copy_leaves ::
  "env \<Rightarrow> Stream \<Rightarrow> ShapedBuffer \<Rightarrow> (ShapeIndex \<times> DeviceMemoryBase) list \<Rightarrow> state
     \<Rightarrow> Status \<times> state" where
  "copy_leaves e dst_device_to_device_stream out [] s = (OK, s)"
| "copy_leaves e dst_device_to_device_stream out ((index, input_buffer) # rest) s =
     (let output_buffer = buffer out index in
      if size_bytes input_buffer \<noteq> size_bytes output_buffer
      then (Some (RET_CHECK_failure ''input_buffer.size() == output_buffer.size()''
                    [Str ''input: '', Num (size_bytes input_buffer),
                     Str '' output: '', Num (size_bytes output_buffer)]), s)
      else
        let s1 = emit (CallEnqueueOnTpuDeviceSendRecvLocal dst_device_to_device_stream
                         input_buffer output_buffer) s
        in case EnqueueOnTpuDeviceSendRecvLocal e dst_device_to_device_stream
                  input_buffer output_buffer of
             Some err \<Rightarrow> (Some err, s1)
           | None \<Rightarrow> copy_leaves e dst_device_to_device_stream out rest s1)"

subsection \<open>TpuDeviceToDeviceCopy\<close>

text \<open>
  Lines 158 to 174: the chosen stream waits for the definition event of the source, and
  for the destination's compute stream when the destination buffers cannot be written
  at once.
\<close>

definition wait_for_buffers :: "env \<Rightarrow> Stream \<Rightarrow> ShapedBuffer \<Rightarrow> state \<Rightarrow> state" where
  "wait_for_buffers e dst_device_to_device_stream output_buffers s =
     (let dst_compute_stream = dst_stream e;
          s1 = emit (CallWaitForDefinitionEventOnStream dst_device_to_device_stream) s
      in if \<not> CanShapedBufferBeAccessedNow e (parent dst_compute_stream) output_buffers
         then
           let s2 = emit (CallThenWaitFor dst_device_to_device_stream dst_compute_stream) s1
           in if IsTuple (on_device_shape output_buffers)
              then emit (CallThenWaitFor (host_to_device_stream e) dst_compute_stream) s2
              else s2
         else s1)"

text \<open>Lines 189 to 205: the index tables of a tuple.\<close>

definition write_index_tables ::
  "env \<Rightarrow> Stream \<Rightarrow> ShapedBuffer \<Rightarrow> state \<Rightarrow> Status \<times> state" where
  "write_index_tables e dst_device_to_device_stream output_buffers s =
     (if IsTuple (on_device_shape output_buffers)
      then
        let s1 = emit (CallWriteTupleIndexTablesAsync (host_to_device_stream e)) s
        in case WriteTupleIndexTablesAsync e (host_to_device_stream e) output_buffers of
             Some err \<Rightarrow> (Some err, s1)
           | None \<Rightarrow>
               (OK, emit (CallThenWaitFor dst_device_to_device_stream
                            (host_to_device_stream e)) s1)
      else (OK, s))"

text \<open>
  Lines 210 to 235, after the definition event was initialized: the event is recorded and
  becomes the destination's definition event, the reference on the input is taken and the
  host callback attached.
\<close>

definition complete_transfer ::
  "env \<Rightarrow> Stream option \<Rightarrow> Stream \<Rightarrow> Event \<Rightarrow> state \<Rightarrow> state" where
  "complete_transfer e device_to_device_master_stream dst_device_to_device_stream
       new_event s =
     (let s1 = emit (CallThenRecordEvent dst_device_to_device_stream new_event) s;
          s2 = update_xla_output
                 (ResetDefinitionEvent new_event dst_device_to_device_stream) s1;
          s3 = TensorReference s2
      in ThenDoHostCallback dst_device_to_device_stream
           (HostCallback device_to_device_master_stream dst_device_to_device_stream) s3)"

text \<open>
  Lines 158 to 237 together. \<open>return_substream\<close> is the cleanup object of line 123: every
  early return leaves it as it is, the last lines release it.
\<close>

definition enqueue_transfer ::
  "env \<Rightarrow> Stream option \<Rightarrow> Stream \<Rightarrow> Cleanup \<Rightarrow> ShapedBuffer \<Rightarrow> ShapedBuffer \<Rightarrow> state
     \<Rightarrow> Status \<times> Cleanup \<times> state" where
  "enqueue_transfer e device_to_device_master_stream dst_device_to_device_stream
       return_substream input_buffers output_buffers s =
     (case copy_leaves e dst_device_to_device_stream output_buffers (leaves input_buffers)
             (wait_for_buffers e dst_device_to_device_stream output_buffers s) of
        (Some err, s1) \<Rightarrow> (Some err, return_substream, s1)
      | (None, s1) \<Rightarrow>
          (case write_index_tables e dst_device_to_device_stream output_buffers s1 of
             (Some err, s2) \<Rightarrow> (Some err, return_substream, s2)
           | (None, s2) \<Rightarrow>
               let definition_event = Event (parent (dst_stream e)) in
               if \<not> Event_Init e
               then (Some (RET_CHECK_failure ''definition_event->Init()''
                             [Str ''Event failed to initialize!'']), return_substream, s2)
               else (OK, Released,
                     complete_transfer e device_to_device_master_stream
                       dst_device_to_device_stream definition_event s2)))"

text \<open>
  Lines 123 to 149: the cleanup object is created, the two XLA tensors are checked, the
  on-device shape is computed and the destination buffer allocated.
\<close>

definition transfer ::
  "env \<Rightarrow> Stream option \<Rightarrow> Stream \<Rightarrow> state \<Rightarrow> Status \<times> Cleanup \<times> state" where
  "transfer e device_to_device_master_stream dst_device_to_device_stream s =
     (let return_substream = Armed device_to_device_master_stream dst_device_to_device_stream;
          dst_device_ordinal = device_ordinal (parent (dst_stream e));
          fail_input = (Some (RET_CHECK_failure
                          ''xla_input != nullptr && xla_input->has_shaped_buffer()'' []),
                        return_substream, s);
          fail_output = (Some (RET_CHECK_failure
                          ''xla_output != nullptr && !xla_output->has_shaped_buffer()'' []),
                        return_substream, s)
      in case xla_tensor (input_tensor e) of
           None \<Rightarrow> fail_input
         | Some xla_input \<Rightarrow>
            (case shaped_buffer xla_input of
               None \<Rightarrow> fail_input
             | Some input_buffers \<Rightarrow>
                (case xla_tensor (output_tensor s) of
                   None \<Rightarrow> fail_output
                 | Some xla_output \<Rightarrow>
                     if has_shaped_buffer xla_output then fail_output
                     else if shape (input_tensor e) \<noteq> shape (output_tensor s)
                     then (Some (RET_CHECK_failure ''input->shape() == output->shape()'' []),
                           return_substream, s)
                     else
                       (case shape_representation_fn e (shape (input_tensor e))
                               (dtype (input_tensor e)) False of
                          Inl err \<Rightarrow> (Some err, return_substream, s)
                        | Inr shp \<Rightarrow>
                            let s1 = emit (CallAllocateShapedBuffer (dtype (input_tensor e))
                                             shp dst_device_ordinal) s
                            in (case AllocateShapedBuffer e (dtype (input_tensor e)) shp
                                       dst_device_ordinal of
                                  Inl err \<Rightarrow> (Some err, return_substream, s1)
                                | Inr output_buffers \<Rightarrow>
                                    enqueue_transfer e device_to_device_master_stream
                                      dst_device_to_device_stream return_substream
                                      input_buffers output_buffers
                                      (update_xla_output
                                         (set_shaped_buffer output_buffers) s1))))))"

text \<open>
  The lambda \<^verbatim>\<open>impl\<close>, lines 78 to 238. The cleanup object lives from line 123 to the
  end of the lambda and runs there unless it was released.
\<close>

definition impl :: "env \<Rightarrow> state \<Rightarrow> Status \<times> state" where
  "impl e s =
     (if src_name e \<noteq> dst_name e \<and> \<not> ok (CheckIfTPUInitialized e)
      then (OK, call_done (CheckIfTPUInitialized e) s)
      else if num_elements (shape (input_tensor e)) = 0
      then (OK, call_done OK s)
      else
        case src_stream e of
          None \<Rightarrow> (Some (RET_CHECK_failure ''src_compute_stream != nullptr'' []), s)
        | Some src_compute_stream \<Rightarrow>
            if dtype (input_tensor e) \<noteq> dtype (output_tensor s)
            then (Some (RET_CHECK_failure ''input->dtype() == output->dtype()''
                          [Str ''input type: '', DataTypeString (dtype (input_tensor e)),
                           Str '' output type '', DataTypeString (dtype (output_tensor s))]), s)
            else if shape (input_tensor e) \<noteq> shape (output_tensor s)
            then (Some (RET_CHECK_failure ''input->shape() == output->shape()'' []), s)
            else if \<not> CanUseDMA (input_tensor e)
            then (Some (RET_CHECK_failure ''DMAHelper::CanUseDMA(input)'' []), s)
            else
              let dst_compute_stream = dst_stream e in
              if IsSameSharedMemoryLocation e src_compute_stream dst_compute_stream
              then (OK, call_done OK (assign_output (input_tensor e) s))
              else
                let device_to_device_master_stream =
                      (if should_use_substream e then Some (device_to_device_stream e 0)
                       else None);
                    s1 = (case device_to_device_master_stream of
                            Some master \<Rightarrow> emit (CallGetOrCreateSubStream master) s
                          | None \<Rightarrow> s)
                in (case (case device_to_device_master_stream of
                            Some master \<Rightarrow> GetOrCreateSubStream e master
                          | None \<Rightarrow> GetDeviceToDeviceStream e) of
                      None \<Rightarrow>
                        (Some (RET_CHECK_failure ''dst_device_to_device_stream != nullptr'' []),
                         s1)
                    | Some dst_device_to_device_stream \<Rightarrow>
                        (case transfer e device_to_device_master_stream
                                dst_device_to_device_stream s1 of
                           (status, return_substream, s2) \<Rightarrow>
                             (status, run_cleanup return_substream s2))))"

text \<open>
  The function itself, lines 239 to 242. It returns nothing: the result of the model is
  the state it leaves.
\<close>

definition TpuDeviceToDeviceCopy :: "env \<Rightarrow> state \<Rightarrow> state" where
  "TpuDeviceToDeviceCopy e s =
     (case impl e s of
        (status, s') \<Rightarrow> if \<not> ok status then call_done status s' else s')"

text \<open>
  The state before a call: the destination tensor as the caller declared it, nothing
  enqueued, \<open>r\<close> references on the input's buffer.
\<close>

definition initial :: "Tensor \<Rightarrow> int \<Rightarrow> state" where
  "initial out r =
     \<lparr>output_tensor = out, trace = [], done_calls = [], input_refcount = r,
      host_callbacks = []\<rparr>"

subsection \<open>Vocabulary for the properties\<close>

text \<open>
  The conditions under which a call gets past the checks of lines 79 to 98 and asks the
  two compute streams whether they share a memory location.
\<close>

definition reaches_location_check :: "env \<Rightarrow> Tensor \<Rightarrow> bool" where
  "reaches_location_check e out \<longleftrightarrow>
     (src_name e = dst_name e \<or> Initialized e) \<and>
     num_elements (shape (input_tensor e)) \<noteq> 0 \<and>
     src_stream e \<noteq> None \<and>
     dtype (input_tensor e) = dtype out \<and>
     shape (input_tensor e) = shape out \<and>
     CanUseDMA (input_tensor e)"

definition same_location :: "env \<Rightarrow> bool" where
  "same_location e =
     (case src_stream e of
        Some src_compute_stream \<Rightarrow>
          IsSameSharedMemoryLocation e src_compute_stream (dst_stream e)
      | None \<Rightarrow> False)"

definition reaches_acquisition :: "env \<Rightarrow> Tensor \<Rightarrow> bool" where
  "reaches_acquisition e out \<longleftrightarrow> reaches_location_check e out \<and> \<not> same_location e"

definition master_stream :: "env \<Rightarrow> Stream option" where
  "master_stream e =
     (if should_use_substream e then Some (device_to_device_stream e 0) else None)"

definition chosen_stream :: "env \<Rightarrow> Stream option" where
  "chosen_stream e =
     (case master_stream e of
        Some master \<Rightarrow> GetOrCreateSubStream e master
      | None \<Rightarrow> GetDeviceToDeviceStream e)"

definition source_buffers :: "env \<Rightarrow> ShapedBuffer option" where
  "source_buffers e =
     (case xla_tensor (input_tensor e) of
        Some xla_input \<Rightarrow> shaped_buffer xla_input
      | None \<Rightarrow> None)"

definition already_allocated :: "Tensor \<Rightarrow> bool" where
  "already_allocated out =
     (case xla_tensor out of
        Some xla_output \<Rightarrow> has_shaped_buffer xla_output
      | None \<Rightarrow> False)"

definition destination_buffers :: "env \<Rightarrow> ShapedBuffer option" where
  "destination_buffers e =
     (case shape_representation_fn e (shape (input_tensor e)) (dtype (input_tensor e)) False of
        Inl err \<Rightarrow> None
      | Inr shp \<Rightarrow>
          (case AllocateShapedBuffer e (dtype (input_tensor e)) shp
                  (device_ordinal (parent (dst_stream e))) of
             Inl err \<Rightarrow> None
           | Inr output_buffers \<Rightarrow> Some output_buffers))"

text \<open>The state after the substream was asked for (lines 114 to 121).\<close>

definition acquire :: "env \<Rightarrow> state \<Rightarrow> state" where
  "acquire e s =
     (case master_stream e of
        Some master \<Rightarrow> emit (CallGetOrCreateSubStream master) s
      | None \<Rightarrow> s)"

text \<open>The pieces of a trace.\<close>

definition acquire_events :: "env \<Rightarrow> event list" where
  "acquire_events e =
     (case master_stream e of
        Some master \<Rightarrow> [CallGetOrCreateSubStream master]
      | None \<Rightarrow> [])"

definition release_events :: "Stream option \<Rightarrow> Stream \<Rightarrow> event list" where
  "release_events device_to_device_master_stream sub =
     (case device_to_device_master_stream of
        Some master \<Rightarrow> [CallReturnSubStream master sub]
      | None \<Rightarrow> [])"

definition allocate_events :: "env \<Rightarrow> event list" where
  "allocate_events e =
     (case shape_representation_fn e (shape (input_tensor e)) (dtype (input_tensor e)) False of
        Inl err \<Rightarrow> []
      | Inr shp \<Rightarrow>
          [CallAllocateShapedBuffer (dtype (input_tensor e)) shp
             (device_ordinal (parent (dst_stream e)))])"

definition wait_events :: "env \<Rightarrow> Stream \<Rightarrow> ShapedBuffer \<Rightarrow> event list" where
  "wait_events e st out =
     CallWaitForDefinitionEventOnStream st #
     (if CanShapedBufferBeAccessedNow e (parent (dst_stream e)) out then []
      else CallThenWaitFor st (dst_stream e) #
           (if IsTuple (on_device_shape out)
            then [CallThenWaitFor (host_to_device_stream e) (dst_stream e)] else []))"

definition leaf_copy :: "Stream \<Rightarrow> ShapedBuffer \<Rightarrow> ShapeIndex \<times> DeviceMemoryBase \<Rightarrow> event" where
  "leaf_copy st out l =
     CallEnqueueOnTpuDeviceSendRecvLocal st (snd l) (buffer out (fst l))"

definition sizes_agree :: "ShapedBuffer \<Rightarrow> ShapeIndex \<times> DeviceMemoryBase \<Rightarrow> bool" where
  "sizes_agree out l \<longleftrightarrow> size_bytes (snd l) = size_bytes (buffer out (fst l))"

definition size_mismatch_error :: "ShapedBuffer \<Rightarrow> ShapeIndex \<times> DeviceMemoryBase \<Rightarrow> error" where
  "size_mismatch_error out l =
     RET_CHECK_failure ''input_buffer.size() == output_buffer.size()''
       [Str ''input: '', Num (size_bytes (snd l)),
        Str '' output: '', Num (size_bytes (buffer out (fst l)))]"

definition index_table_events :: "env \<Rightarrow> Stream \<Rightarrow> ShapedBuffer \<Rightarrow> event list" where
  "index_table_events e st out =
     (if IsTuple (on_device_shape out)
      then [CallWriteTupleIndexTablesAsync (host_to_device_stream e),
            CallThenWaitFor st (host_to_device_stream e)]
      else [])"

definition completion_events :: "env \<Rightarrow> Stream \<Rightarrow> event list" where
  "completion_events e st =
     [CallThenRecordEvent st (Event (parent (dst_stream e))), TensorReferenceRef,
      CallThenDoHostCallback st]"

fun is_ReturnSubStream :: "event \<Rightarrow> bool" where
  "is_ReturnSubStream (CallReturnSubStream _ _) = True"
| "is_ReturnSubStream _ = False"

fun is_leaf_copy :: "event \<Rightarrow> bool" where
  "is_leaf_copy (CallEnqueueOnTpuDeviceSendRecvLocal _ _ _) = True"
| "is_leaf_copy _ = False"

fun is_reference_event :: "event \<Rightarrow> bool" where
  "is_reference_event TensorReferenceRef = True"
| "is_reference_event TensorReferenceUnref = True"
| "is_reference_event _ = False"

fun is_ThenRecordEvent :: "event \<Rightarrow> bool" where
  "is_ThenRecordEvent (CallThenRecordEvent _ _) = True"
| "is_ThenRecordEvent _ = False"

fun is_index_table_write :: "event \<Rightarrow> bool" where
  "is_index_table_write (CallWriteTupleIndexTablesAsync _) = True"
| "is_index_table_write _ = False"

text \<open>
  The status with which a call that does not get to the location check ends: the
  failed initialization check, success for an input without elements, or the failed
  check of lines 93 to 98.
\<close>

definition validation_status :: "env \<Rightarrow> Tensor \<Rightarrow> Status" where
  "validation_status e out =
     (if src_name e \<noteq> dst_name e \<and> \<not> Initialized e
      then Some (Error FAILED_PRECONDITION [Str ''The TPU system has not been initialized.''])
      else if num_elements (shape (input_tensor e)) = 0 then OK
      else if src_stream e = None
      then Some (RET_CHECK_failure ''src_compute_stream != nullptr'' [])
      else if dtype (input_tensor e) \<noteq> dtype out
      then Some (RET_CHECK_failure ''input->dtype() == output->dtype()''
                   [Str ''input type: '', DataTypeString (dtype (input_tensor e)),
                    Str '' output type '', DataTypeString (dtype out)])
      else if shape (input_tensor e) \<noteq> shape out
      then Some (RET_CHECK_failure ''input->shape() == output->shape()'' [])
      else Some (RET_CHECK_failure ''DMAHelper::CanUseDMA(input)'' []))"

text \<open>The two ways in which a call ends with success before any stream is chosen.\<close>

definition zero_element_shortcut :: "env \<Rightarrow> bool" where
  "zero_element_shortcut e \<longleftrightarrow>
     (src_name e = dst_name e \<or> Initialized e) \<and> num_elements (shape (input_tensor e)) = 0"

definition same_location_shortcut :: "env \<Rightarrow> Tensor \<Rightarrow> bool" where
  "same_location_shortcut e out \<longleftrightarrow> reaches_location_check e out \<and> same_location e"

text \<open>
  The state when \<^verbatim>\<open>TpuDeviceToDeviceCopy\<close> has returned, and the state when the
  callbacks it attached have run.
\<close>

definition after_call :: "env \<Rightarrow> Tensor \<Rightarrow> int \<Rightarrow> state" where
  "after_call e out r = TpuDeviceToDeviceCopy e (initial out r)"

definition after_callbacks :: "env \<Rightarrow> Tensor \<Rightarrow> int \<Rightarrow> state" where
  "after_callbacks e out r = run_host_callbacks (after_call e out r)"

subsection \<open>Concrete calls\<close>

definition mem :: "nat \<Rightarrow> nat \<Rightarrow> DeviceMemoryBase" where
  "mem a n = \<lparr>opaque = a, size_bytes = n\<rparr>"

definition tpu0 :: StreamExecutor where "tpu0 = StreamExecutor 0"
definition tpu1 :: StreamExecutor where "tpu1 = StreamExecutor 1"

definition src_array :: ShapedBuffer where
  "src_array = \<lparr>on_device_shape = ArrayShape [1024], leaves = [([], mem 4096 4096)],
                 buffer = (\<lambda>i. mem 4096 4096)\<rparr>"

definition dst_array :: ShapedBuffer where
  "dst_array = \<lparr>on_device_shape = ArrayShape [1024], leaves = [([], mem 8192 4096)],
                 buffer = (\<lambda>i. mem 8192 4096)\<rparr>"

definition src_tuple :: ShapedBuffer where
  "src_tuple = \<lparr>on_device_shape = TupleShape [ArrayShape [512], ArrayShape [512]],
                 leaves = [([0], mem 4096 2048), ([1], mem 6144 2048)],
                 buffer = (\<lambda>i. if i = [0] then mem 4096 2048 else mem 6144 2048)\<rparr>"

definition dst_tuple :: ShapedBuffer where
  "dst_tuple = \<lparr>on_device_shape = TupleShape [ArrayShape [512], ArrayShape [512]],
                 leaves = [([0], mem 8192 2048), ([1], mem 10240 2048)],
                 buffer = (\<lambda>i. if i = [0] then mem 8192 2048 else mem 10240 2048)\<rparr>"

text \<open>A destination whose second leaf is larger than the source's.\<close>

definition dst_tuple_padded :: ShapedBuffer where
  "dst_tuple_padded = \<lparr>on_device_shape = TupleShape [ArrayShape [512], ArrayShape [1024]],
                 leaves = [([0], mem 8192 2048), ([1], mem 10240 4096)],
                 buffer = (\<lambda>i. if i = [0] then mem 8192 2048 else mem 10240 4096)\<rparr>"

definition input_array :: Tensor where
  "input_array = \<lparr>dtype = 1, shape = [1024],
                   xla_tensor = Some \<lparr>shaped_buffer = Some src_array,
                                       definition_event = Some (Event tpu0),
                                       streams_defined_on = [Stream 0 tpu0]\<rparr>,
                   CanUseDMA = True\<rparr>"

definition input_tuple :: Tensor where
  "input_tuple = \<lparr>dtype = 1, shape = [1024],
                   xla_tensor = Some \<lparr>shaped_buffer = Some src_tuple,
                                       definition_event = Some (Event tpu0),
                                       streams_defined_on = [Stream 0 tpu0]\<rparr>,
                   CanUseDMA = True\<rparr>"

text \<open>A tensor without elements has no backing buffer.\<close>

definition input_empty :: Tensor where
  "input_empty = \<lparr>dtype = 1, shape = [2, 0], xla_tensor = None, CanUseDMA = True\<rparr>"

definition output_declared :: Tensor where
  "output_declared = \<lparr>dtype = 1, shape = [1024],
                       xla_tensor = Some \<lparr>shaped_buffer = None, definition_event = None,
                                           streams_defined_on = []\<rparr>,
                       CanUseDMA = True\<rparr>"

definition output_empty :: Tensor where
  "output_empty = \<lparr>dtype = 1, shape = [2, 0], xla_tensor = None, CanUseDMA = True\<rparr>"

definition output_transposed :: Tensor where
  "output_transposed = \<lparr>dtype = 1, shape = [0, 2], xla_tensor = None, CanUseDMA = True\<rparr>"

definition output_allocated :: Tensor where
  "output_allocated = \<lparr>dtype = 1, shape = [1024],
                       xla_tensor = Some \<lparr>shaped_buffer = Some dst_array,
                                           definition_event = None,
                                           streams_defined_on = []\<rparr>,
                       CanUseDMA = True\<rparr>"

text \<open>
  A copy of an array from TPU 0 to TPU 1 with substreams, on an initialized platform,
  every collaborator succeeding.
\<close>

definition array_call :: env where
  "array_call =
     \<lparr>src_name = ''/device:TPU:0'', dst_name = ''/device:TPU:1'', Initialized = True,
      should_use_substream = True, input_tensor = input_array,
      src_stream = Some (Stream 0 tpu0), dst_stream = Stream 1 tpu1,
      IsSameSharedMemoryLocation = (\<lambda>a b. False),
      device_to_device_stream = (\<lambda>i. Stream (10 + i) tpu1),
      GetOrCreateSubStream = (\<lambda>master. Some (Stream 20 tpu1)),
      GetDeviceToDeviceStream = Some (Stream 10 tpu1),
      host_to_device_stream = Stream 2 tpu1,
      shape_representation_fn = (\<lambda>dims t fast. Inr (ArrayShape dims)),
      AllocateShapedBuffer = (\<lambda>t shp ordinal. Inr dst_array),
      CanShapedBufferBeAccessedNow = (\<lambda>executor b. True),
      EnqueueOnTpuDeviceSendRecvLocal = (\<lambda>st a b. OK),
      WriteTupleIndexTablesAsync = (\<lambda>st b. OK),
      Event_Init = True\<rparr>"

text \<open>The same for a tuple whose destination memory is still in use.\<close>

definition tuple_call :: env where
  "tuple_call =
     array_call\<lparr>input_tensor := input_tuple,
       shape_representation_fn :=
         (\<lambda>dims t fast. Inr (TupleShape [ArrayShape [512], ArrayShape [512]])),
       AllocateShapedBuffer := (\<lambda>t shp ordinal. Inr dst_tuple),
       CanShapedBufferBeAccessedNow := (\<lambda>executor b. False)\<rparr>"

definition padded_call :: env where
  "padded_call =
     tuple_call\<lparr>AllocateShapedBuffer := (\<lambda>t shp ordinal. Inr dst_tuple_padded)\<rparr>"

definition empty_call :: env where
  "empty_call = array_call\<lparr>input_tensor := input_empty\<rparr>"

definition uninitialized_empty_call :: env where
  "uninitialized_empty_call = empty_call\<lparr>Initialized := False\<rparr>"

definition aliased_call :: env where
  "aliased_call = array_call\<lparr>IsSameSharedMemoryLocation := (\<lambda>a b. True)\<rparr>"

definition uninitialized_aliased_call :: env where
  "uninitialized_aliased_call = aliased_call\<lparr>Initialized := False\<rparr>"

section \<open>Auxiliary facts\<close>

subsection \<open>The fields of the state after each operation\<close>

lemma emit_fields [simp]:
  "trace (emit ev s) = trace s @ [ev]"
  "done_calls (emit ev s) = done_calls s"
  "output_tensor (emit ev s) = output_tensor s"
  "input_refcount (emit ev s) = input_refcount s"
  "host_callbacks (emit ev s) = host_callbacks s"
  by (simp_all add: emit_def)

lemma call_done_fields [simp]:
  "trace (call_done st s) = trace s"
  "done_calls (call_done st s) = done_calls s @ [st]"
  "output_tensor (call_done st s) = output_tensor s"
  "input_refcount (call_done st s) = input_refcount s"
  "host_callbacks (call_done st s) = host_callbacks s"
  by (simp_all add: call_done_def)

lemma assign_output_fields [simp]:
  "trace (assign_output t s) = trace s"
  "done_calls (assign_output t s) = done_calls s"
  "output_tensor (assign_output t s) = t"
  "input_refcount (assign_output t s) = input_refcount s + 1"
  "host_callbacks (assign_output t s) = host_callbacks s"
  by (simp_all add: assign_output_def)

lemma update_xla_output_fields [simp]:
  "trace (update_xla_output f s) = trace s"
  "done_calls (update_xla_output f s) = done_calls s"
  "output_tensor (update_xla_output f s) =
     (output_tensor s)\<lparr>xla_tensor := map_option f (xla_tensor (output_tensor s))\<rparr>"
  "input_refcount (update_xla_output f s) = input_refcount s"
  "host_callbacks (update_xla_output f s) = host_callbacks s"
  by (simp_all add: update_xla_output_def)

lemma TensorReference_fields [simp]:
  "trace (TensorReference s) = trace s @ [TensorReferenceRef]"
  "done_calls (TensorReference s) = done_calls s"
  "output_tensor (TensorReference s) = output_tensor s"
  "input_refcount (TensorReference s) = input_refcount s + 1"
  "host_callbacks (TensorReference s) = host_callbacks s"
  by (simp_all add: TensorReference_def)

lemma Unref_fields [simp]:
  "trace (Unref s) = trace s @ [TensorReferenceUnref]"
  "done_calls (Unref s) = done_calls s"
  "output_tensor (Unref s) = output_tensor s"
  "input_refcount (Unref s) = input_refcount s - 1"
  "host_callbacks (Unref s) = host_callbacks s"
  by (simp_all add: Unref_def)

lemma ThenDoHostCallback_fields [simp]:
  "trace (ThenDoHostCallback st cb s) = trace s @ [CallThenDoHostCallback st]"
  "done_calls (ThenDoHostCallback st cb s) = done_calls s"
  "output_tensor (ThenDoHostCallback st cb s) = output_tensor s"
  "input_refcount (ThenDoHostCallback st cb s) = input_refcount s"
  "host_callbacks (ThenDoHostCallback st cb s) = host_callbacks s @ [(st, cb)]"
  by (simp_all add: ThenDoHostCallback_def)

lemma return_substream_body_fields [simp]:
  "trace (return_substream_body m sub s) = trace s @ release_events m sub"
  "done_calls (return_substream_body m sub s) = done_calls s"
  "output_tensor (return_substream_body m sub s) = output_tensor s"
  "input_refcount (return_substream_body m sub s) = input_refcount s"
  "host_callbacks (return_substream_body m sub s) = host_callbacks s"
  by (simp_all add: return_substream_body_def release_events_def split: option.splits)

lemma initial_fields [simp]:
  "trace (initial out r) = []"
  "done_calls (initial out r) = []"
  "output_tensor (initial out r) = out"
  "input_refcount (initial out r) = r"
  "host_callbacks (initial out r) = []"
  by (simp_all add: initial_def)

subsection \<open>The leaf loop\<close>

lemma copy_leaves_frame:
  "copy_leaves e st out ls s = (r, s') \<Longrightarrow>
     done_calls s' = done_calls s \<and> output_tensor s' = output_tensor s \<and>
     input_refcount s' = input_refcount s \<and> host_callbacks s' = host_callbacks s \<and>
     (\<exists>k \<le> length (takeWhile (sizes_agree out) ls).
        trace s' = trace s @ map (leaf_copy st out) (take k ls) \<and>
        (r = None \<longrightarrow> k = length ls))"
proof (induction ls arbitrary: s)
  case Nil
  then show ?case by simp
next
  case (Cons l ls)
  obtain index input_buffer where l: "l = (index, input_buffer)" by (cases l)
  show ?case
  proof (cases "sizes_agree out l")
    case False
    with Cons.prems l have "s' = s" "r \<noteq> None"
      by (auto simp: sizes_agree_def Let_def)
    with False show ?thesis by simp
  next
    case True
    let ?s1 = "emit (leaf_copy st out l) s"
    show ?thesis
    proof (cases "EnqueueOnTpuDeviceSendRecvLocal e st input_buffer (buffer out index)")
      case None
      with Cons.prems l True have "copy_leaves e st out ls ?s1 = (r, s')"
        by (simp add: sizes_agree_def Let_def leaf_copy_def)
      from Cons.IH [OF this] obtain k where
        k: "k \<le> length (takeWhile (sizes_agree out) ls)"
           "trace s' = trace ?s1 @ map (leaf_copy st out) (take k ls)"
           "r = None \<longrightarrow> k = length ls"
        and frame: "done_calls s' = done_calls ?s1" "output_tensor s' = output_tensor ?s1"
           "input_refcount s' = input_refcount ?s1" "host_callbacks s' = host_callbacks ?s1"
        by blast
      from k True have "Suc k \<le> length (takeWhile (sizes_agree out) (l # ls)) \<and>
          trace s' = trace s @ map (leaf_copy st out) (take (Suc k) (l # ls)) \<and>
          (r = None \<longrightarrow> Suc k = length (l # ls))"
        by simp
      with frame show ?thesis
        unfolding emit_fields by blast
    next
      case (Some err)
      with Cons.prems l True have "s' = ?s1 \<and> r = Some err"
        by (simp add: sizes_agree_def Let_def leaf_copy_def)
      with True have "Suc 0 \<le> length (takeWhile (sizes_agree out) (l # ls)) \<and>
          trace s' = trace s @ map (leaf_copy st out) (take (Suc 0) (l # ls)) \<and>
          (r = None \<longrightarrow> Suc 0 = length (l # ls))" "s' = ?s1"
        by simp_all
      then show ?thesis
        by (metis emit_fields(2-5))
    qed
  qed
qed

lemma takeWhile_full:
  "length xs \<le> length (takeWhile P xs) \<Longrightarrow> \<forall>x\<in>set xs. P x"
  by (induction xs) (auto split: if_splits)

lemma copy_leaves_first_mismatch:
  assumes "\<forall>l\<in>set (takeWhile (sizes_agree out) ls).
             EnqueueOnTpuDeviceSendRecvLocal e st (snd l) (buffer out (fst l)) = None"
    and "\<exists>l\<in>set ls. \<not> sizes_agree out l"
    and "copy_leaves e st out ls s = (r, s')"
  shows "r = Some (size_mismatch_error out (hd (dropWhile (sizes_agree out) ls))) \<and>
         trace s' = trace s @ map (leaf_copy st out) (takeWhile (sizes_agree out) ls)"
  using assms
proof (induction ls arbitrary: s)
  case Nil
  then show ?case by simp
next
  case (Cons l ls)
  obtain index input_buffer where l: "l = (index, input_buffer)" by (cases l)
  show ?case
  proof (cases "sizes_agree out l")
    case False
    with l Cons.prems(3) show ?thesis
      by (auto simp: sizes_agree_def size_mismatch_error_def Let_def)
  next
    case True
    with Cons.prems have
      rest: "\<forall>l\<in>set (takeWhile (sizes_agree out) ls).
               EnqueueOnTpuDeviceSendRecvLocal e st (snd l) (buffer out (fst l)) = None"
            "\<exists>l\<in>set ls. \<not> sizes_agree out l"
      and this_ok: "EnqueueOnTpuDeviceSendRecvLocal e st input_buffer (buffer out index) = None"
      using l by auto
    from True l this_ok Cons.prems(3)
    have "copy_leaves e st out ls (emit (leaf_copy st out l) s) = (r, s')"
      by (simp add: sizes_agree_def Let_def leaf_copy_def)
    from Cons.IH [OF rest this] True show ?thesis
      by simp
  qed
qed

subsection \<open>The copy stage\<close>

lemma wait_for_buffers_fields [simp]:
  "trace (wait_for_buffers e st ob s) = trace s @ wait_events e st ob"
  "done_calls (wait_for_buffers e st ob s) = done_calls s"
  "output_tensor (wait_for_buffers e st ob s) = output_tensor s"
  "input_refcount (wait_for_buffers e st ob s) = input_refcount s"
  "host_callbacks (wait_for_buffers e st ob s) = host_callbacks s"
  by (simp_all add: wait_for_buffers_def wait_events_def Let_def)

lemma write_index_tables_result:
  assumes "write_index_tables e st ob s = (r, s')"
  shows "done_calls s' = done_calls s" "output_tensor s' = output_tensor s"
    "input_refcount s' = input_refcount s" "host_callbacks s' = host_callbacks s"
    "r = None \<Longrightarrow> trace s' = trace s @ index_table_events e st ob"
    "r \<noteq> None \<Longrightarrow> IsTuple (on_device_shape ob) \<and>
       trace s' = trace s @ [CallWriteTupleIndexTablesAsync (host_to_device_stream e)]"
  using assms
  by (auto simp: write_index_tables_def index_table_events_def Let_def
      split: if_splits option.splits)

lemma complete_transfer_fields [simp]:
  "trace (complete_transfer e m st ev s) =
     trace s @ [CallThenRecordEvent st ev, TensorReferenceRef, CallThenDoHostCallback st]"
  "done_calls (complete_transfer e m st ev s) = done_calls s"
  "output_tensor (complete_transfer e m st ev s) =
     (output_tensor s)\<lparr>xla_tensor :=
        map_option (ResetDefinitionEvent ev st) (xla_tensor (output_tensor s))\<rparr>"
  "input_refcount (complete_transfer e m st ev s) = input_refcount s + 1"
  "host_callbacks (complete_transfer e m st ev s) = host_callbacks s @ [(st, HostCallback m st)]"
  by (simp_all add: complete_transfer_def Let_def)

lemma enqueue_transfer_result:
  assumes "enqueue_transfer e m st c0 ib ob s = (status, c, s')"
  shows "done_calls s' = done_calls s \<and>
    ((status = None \<and> c = Released \<and>
      (\<forall>l\<in>set (leaves ib). sizes_agree ob l) \<and>
      output_tensor s' = (output_tensor s)\<lparr>xla_tensor :=
         map_option (ResetDefinitionEvent (Event (parent (dst_stream e))) st)
           (xla_tensor (output_tensor s))\<rparr> \<and>
      trace s' = trace s @ wait_events e st ob @ map (leaf_copy st ob) (leaves ib) @
         index_table_events e st ob @ completion_events e st \<and>
      input_refcount s' = input_refcount s + 1 \<and>
      host_callbacks s' = host_callbacks s @ [(st, HostCallback m st)])
     \<or>
     (status \<noteq> None \<and> c = c0 \<and>
      output_tensor s' = output_tensor s \<and>
      input_refcount s' = input_refcount s \<and>
      host_callbacks s' = host_callbacks s \<and>
      (\<exists>k w. k \<le> length (takeWhile (sizes_agree ob) (leaves ib)) \<and>
         (w = [] \<or> k = length (leaves ib) \<and> IsTuple (on_device_shape ob) \<and>
            (w = [CallWriteTupleIndexTablesAsync (host_to_device_stream e)] \<or>
             w = index_table_events e st ob)) \<and>
         trace s' = trace s @ wait_events e st ob @
            map (leaf_copy st ob) (take k (leaves ib)) @ w)))"
    (is "_ \<and> (?success \<or> ?failure)")
proof -
  obtain r s1 where loop:
    "copy_leaves e st ob (leaves ib) (wait_for_buffers e st ob s) = (r, s1)"
    by (cases "copy_leaves e st ob (leaves ib) (wait_for_buffers e st ob s)")
  from copy_leaves_frame [OF loop] obtain k where
    k: "k \<le> length (takeWhile (sizes_agree ob) (leaves ib))"
       "trace s1 = trace s @ wait_events e st ob @ map (leaf_copy st ob) (take k (leaves ib))"
       "r = None \<longrightarrow> k = length (leaves ib)"
    and s1: "done_calls s1 = done_calls s" "output_tensor s1 = output_tensor s"
       "input_refcount s1 = input_refcount s" "host_callbacks s1 = host_callbacks s"
    by auto
  have failure: "?failure"
    if "status \<noteq> None" "c = c0" "done_calls s' = done_calls s"
      "output_tensor s' = output_tensor s" "input_refcount s' = input_refcount s"
      "host_callbacks s' = host_callbacks s"
      "trace s' = trace s1 @ w"
      "w = [] \<or> k = length (leaves ib) \<and> IsTuple (on_device_shape ob) \<and>
            (w = [CallWriteTupleIndexTablesAsync (host_to_device_stream e)] \<or>
             w = index_table_events e st ob)" for w
  proof -
    from that k(1,2) have "k \<le> length (takeWhile (sizes_agree ob) (leaves ib)) \<and>
         (w = [] \<or> k = length (leaves ib) \<and> IsTuple (on_device_shape ob) \<and>
            (w = [CallWriteTupleIndexTablesAsync (host_to_device_stream e)] \<or>
             w = index_table_events e st ob)) \<and>
         trace s' = trace s @ wait_events e st ob @
            map (leaf_copy st ob) (take k (leaves ib)) @ w"
      by simp
    then have "\<exists>k w. k \<le> length (takeWhile (sizes_agree ob) (leaves ib)) \<and>
         (w = [] \<or> k = length (leaves ib) \<and> IsTuple (on_device_shape ob) \<and>
            (w = [CallWriteTupleIndexTablesAsync (host_to_device_stream e)] \<or>
             w = index_table_events e st ob)) \<and>
         trace s' = trace s @ wait_events e st ob @
            map (leaf_copy st ob) (take k (leaves ib)) @ w"
      by blast
    with that(1-6) show ?thesis by blast
  qed
  show ?thesis
  proof (cases r)
    case (Some err)
    with assms loop have "(status, c, s') = (Some err, c0, s1)"
      by (simp add: enqueue_transfer_def)
    then have *: "status = Some err" "c = c0" "s' = s1" by simp_all
    from * s1 have "?failure"
      by (intro failure [of "[]"]) simp_all
    with * s1 show ?thesis by simp
  next
    case None
    with k have kl: "k = length (leaves ib)" by simp
    with k(1) have agree: "\<forall>l\<in>set (leaves ib). sizes_agree ob l"
      by (auto dest: takeWhile_full)
    obtain r2 s2 where wr: "write_index_tables e st ob s1 = (r2, s2)"
      by (cases "write_index_tables e st ob s1")
    note w = write_index_tables_result [OF wr]
    show ?thesis
    proof (cases r2)
      case (Some err)
      with assms loop None wr have "(status, c, s') = (Some err, c0, s2)"
        by (simp add: enqueue_transfer_def)
      then have *: "status = Some err" "c = c0" "s' = s2" by simp_all
      from Some w(6) have "IsTuple (on_device_shape ob)"
        "trace s2 = trace s1 @ [CallWriteTupleIndexTablesAsync (host_to_device_stream e)]"
        by simp_all
      with * w(1-4) s1 kl have "?failure"
        by (intro failure [of "[CallWriteTupleIndexTablesAsync (host_to_device_stream e)]"])
          simp_all
      with * w(1) s1 show ?thesis by simp
    next
      case wr_ok: None
      with w(5) have tr2: "trace s2 = trace s1 @ index_table_events e st ob" by simp
      show ?thesis
      proof (cases "Event_Init e")
        case True
        with assms loop None wr wr_ok have "(status, c, s') =
            (None, Released, complete_transfer e m st (Event (parent (dst_stream e))) s2)"
          by (simp add: enqueue_transfer_def)
        then have *: "status = None" "c = Released"
          "s' = complete_transfer e m st (Event (parent (dst_stream e))) s2" by simp_all
        from * w(1-4) tr2 k(2) kl s1 agree have "?success"
          by (simp add: completion_events_def)
        with * w(1) s1 show ?thesis by simp
      next
        case False
        with assms loop None wr wr_ok have "(status, c, s') =
            (Some (RET_CHECK_failure ''definition_event->Init()''
                             [Str ''Event failed to initialize!'']), c0, s2)"
          by (simp add: enqueue_transfer_def)
        then have *: "status \<noteq> None" "c = c0" "s' = s2" by simp_all
        have "index_table_events e st ob = [] \<or> IsTuple (on_device_shape ob)"
          by (simp add: index_table_events_def)
        with * w(1-4) tr2 s1 kl have "?failure"
          by (intro failure [of "index_table_events e st ob"]) auto
        with * w(1) s1 show ?thesis by simp
      qed
    qed
  qed
qed

subsection \<open>The paths through the function\<close>

lemma impl_acquisition:
  assumes "reaches_acquisition e (output_tensor s)"
  shows "impl e s =
     (case chosen_stream e of
        None \<Rightarrow> (Some (RET_CHECK_failure ''dst_device_to_device_stream != nullptr'' []),
                 acquire e s)
      | Some st \<Rightarrow>
          (case transfer e (master_stream e) st (acquire e s) of
             (status, c, s2) \<Rightarrow> (status, run_cleanup c s2)))"
proof -
  from assms obtain src where
    src: "src_stream e = Some src" and
    init: "src_name e = dst_name e \<or> ok (CheckIfTPUInitialized e)" and
    rest: "num_elements (shape (input_tensor e)) \<noteq> 0"
      "dtype (input_tensor e) = dtype (output_tensor s)"
      "shape (input_tensor e) = shape (output_tensor s)"
      "CanUseDMA (input_tensor e)"
      "\<not> IsSameSharedMemoryLocation e src (dst_stream e)"
    unfolding reaches_acquisition_def reaches_location_check_def same_location_def
      ok_def CheckIfTPUInitialized_def
    by (cases "src_stream e") auto
  from init src rest show ?thesis
    unfolding impl_def
    by (elim disjE)
      (simp_all add: master_stream_def chosen_stream_def acquire_def Let_def
        split: option.splits)
qed


lemma acquire_fields [simp]:
  "trace (acquire e s) = trace s @ acquire_events e"
  "done_calls (acquire e s) = done_calls s"
  "output_tensor (acquire e s) = output_tensor s"
  "input_refcount (acquire e s) = input_refcount s"
  "host_callbacks (acquire e s) = host_callbacks s"
  by (simp_all add: acquire_def acquire_events_def split: option.splits)

lemma ok_simps [simp]: "ok None" "\<not> ok (Some err)"
  by (simp_all add: ok_def)

lemma run_cleanup_Armed_fields [simp]:
  "trace (run_cleanup (Armed m st) s) = trace s @ release_events m st"
  "done_calls (run_cleanup (Armed m st) s) = done_calls s"
  "output_tensor (run_cleanup (Armed m st) s) = output_tensor s"
  "input_refcount (run_cleanup (Armed m st) s) = input_refcount s"
  "host_callbacks (run_cleanup (Armed m st) s) = host_callbacks s"
  by simp_all

lemma transfer_precheck:
  assumes "source_buffers e = None \<or> xla_tensor (output_tensor s) = None \<or>
           already_allocated (output_tensor s)"
  shows "\<exists>err. transfer e m st s = (Some err, Armed m st, s)"
proof (cases "source_buffers e")
  case None
  then have "xla_tensor (input_tensor e) = None \<or>
     (\<exists>xi. xla_tensor (input_tensor e) = Some xi \<and> shaped_buffer xi = None)"
    by (auto simp: source_buffers_def split: option.splits)
  then show ?thesis
    by (elim disjE exE conjE) (simp_all add: transfer_def Let_def)
next
  case (Some ib)
  then obtain xi where xi: "xla_tensor (input_tensor e) = Some xi" "shaped_buffer xi = Some ib"
    by (auto simp: source_buffers_def split: option.splits)
  from assms Some have "xla_tensor (output_tensor s) = None \<or>
     (\<exists>xo. xla_tensor (output_tensor s) = Some xo \<and> has_shaped_buffer xo)"
    by (auto simp: already_allocated_def split: option.splits)
  with xi show ?thesis
    by (elim disjE exE conjE) (simp_all add: transfer_def Let_def)
qed

lemma transfer_alloc:
  assumes "source_buffers e = Some ib" "xla_tensor (output_tensor s) = Some xo"
    "\<not> has_shaped_buffer xo" "shape (input_tensor e) = shape (output_tensor s)"
  shows "transfer e m st s =
     (case shape_representation_fn e (shape (input_tensor e)) (dtype (input_tensor e)) False of
        Inl err \<Rightarrow> (Some err, Armed m st, s)
      | Inr shp \<Rightarrow>
          (case AllocateShapedBuffer e (dtype (input_tensor e)) shp
                  (device_ordinal (parent (dst_stream e))) of
             Inl err \<Rightarrow>
               (Some err, Armed m st,
                emit (CallAllocateShapedBuffer (dtype (input_tensor e)) shp
                        (device_ordinal (parent (dst_stream e)))) s)
           | Inr ob \<Rightarrow>
               enqueue_transfer e m st (Armed m st) ib ob
                 (update_xla_output (set_shaped_buffer ob)
                    (emit (CallAllocateShapedBuffer (dtype (input_tensor e)) shp
                             (device_ordinal (parent (dst_stream e)))) s))))"
proof -
  from assms(1) obtain xi where
    xi: "xla_tensor (input_tensor e) = Some xi" "shaped_buffer xi = Some ib"
    by (auto simp: source_buffers_def split: option.splits)
  from xi assms(2-4) show ?thesis
    by (simp add: transfer_def Let_def split: sum.splits)
qed

lemma reaches_acquisition_shape:
  "reaches_acquisition e out \<Longrightarrow> shape (input_tensor e) = shape out"
  by (simp add: reaches_acquisition_def reaches_location_check_def)


lemma sync_validation:
  assumes "\<not> reaches_location_check e out"
  shows "TpuDeviceToDeviceCopy e (initial out r) =
           call_done (validation_status e out) (initial out r)"
proof (cases "src_name e \<noteq> dst_name e \<and> \<not> Initialized e")
  case True
  then have "src_name e \<noteq> dst_name e \<and> \<not> ok (CheckIfTPUInitialized e)"
    by (simp add: CheckIfTPUInitialized_def)
  then have "TpuDeviceToDeviceCopy e (initial out r) =
      call_done (CheckIfTPUInitialized e) (initial out r)"
    by (simp add: TpuDeviceToDeviceCopy_def impl_def)
  with True show ?thesis
    by (simp add: validation_status_def CheckIfTPUInitialized_def)
next
  case False
  then have init: "\<not> (src_name e \<noteq> dst_name e \<and> \<not> ok (CheckIfTPUInitialized e))"
    by (auto simp: CheckIfTPUInitialized_def)
  show ?thesis
  proof (cases "num_elements (shape (input_tensor e)) = 0")
    case True
    then have "TpuDeviceToDeviceCopy e (initial out r) = call_done OK (initial out r)"
      by (simp add: TpuDeviceToDeviceCopy_def impl_def init)
    with True show ?thesis
      by (simp add: validation_status_def False)
  next
    case nonzero: False
    show ?thesis
    proof (cases "src_stream e")
      case None
      with nonzero have "TpuDeviceToDeviceCopy e (initial out r) =
          call_done (Some (RET_CHECK_failure ''src_compute_stream != nullptr'' []))
            (initial out r)"
        by (simp add: TpuDeviceToDeviceCopy_def impl_def init)
      with nonzero None show ?thesis
        by (simp add: validation_status_def False)
    next
      case (Some src)
      with assms False nonzero
      have bad: "dtype (input_tensor e) \<noteq> dtype out \<or> shape (input_tensor e) \<noteq> shape out \<or>
                 \<not> CanUseDMA (input_tensor e)"
        by (auto simp: reaches_location_check_def)
      have "impl e (initial out r) = (validation_status e out, initial out r)"
        using bad nonzero Some
        by (elim disjE) (simp_all add: impl_def init validation_status_def False)
      moreover from bad nonzero Some have "\<not> ok (validation_status e out)"
        by (simp add: validation_status_def False)
      ultimately show ?thesis
        by (simp add: TpuDeviceToDeviceCopy_def)
    qed
  qed
qed

lemma sync_same_location:
  assumes "reaches_location_check e out" "same_location e"
  shows "TpuDeviceToDeviceCopy e (initial out r) =
           call_done OK (assign_output (input_tensor e) (initial out r))"
proof -
  from assms obtain src where
    src: "src_stream e = Some src" and
    init: "src_name e = dst_name e \<or> ok (CheckIfTPUInitialized e)" and
    rest: "num_elements (shape (input_tensor e)) \<noteq> 0"
      "dtype (input_tensor e) = dtype out"
      "shape (input_tensor e) = shape out"
      "CanUseDMA (input_tensor e)"
      "IsSameSharedMemoryLocation e src (dst_stream e)"
    unfolding reaches_location_check_def same_location_def
      ok_def CheckIfTPUInitialized_def
    by (cases "src_stream e") auto
  from init src rest have "impl e (initial out r) =
      (OK, call_done OK (assign_output (input_tensor e) (initial out r)))"
    unfolding impl_def
    by (elim disjE) (simp_all add: Let_def)
  then show ?thesis
    by (simp add: TpuDeviceToDeviceCopy_def)
qed

lemma validation_status_ok:
  "\<not> reaches_location_check e out \<Longrightarrow>
     validation_status e out = None \<longleftrightarrow> zero_element_shortcut e"
  by (auto simp: validation_status_def zero_element_shortcut_def reaches_location_check_def)

lemma reaches_acquisition_no_shortcut:
  "reaches_acquisition e out \<Longrightarrow> \<not> same_location_shortcut e out"
  by (simp add: reaches_acquisition_def same_location_shortcut_def)

lemma sync_early:
  assumes "\<not> reaches_acquisition e out"
  shows "trace (TpuDeviceToDeviceCopy e (initial out r)) = []"
    "\<exists>status. done_calls (TpuDeviceToDeviceCopy e (initial out r)) = [status]"
    "input_refcount (TpuDeviceToDeviceCopy e (initial out r)) =
       (if same_location_shortcut e out then r + 1 else r)"
    "host_callbacks (TpuDeviceToDeviceCopy e (initial out r)) = []"
proof -
  have "trace (TpuDeviceToDeviceCopy e (initial out r)) = [] \<and>
    (\<exists>status. done_calls (TpuDeviceToDeviceCopy e (initial out r)) = [status]) \<and>
    input_refcount (TpuDeviceToDeviceCopy e (initial out r)) =
       (if same_location_shortcut e out then r + 1 else r) \<and>
    host_callbacks (TpuDeviceToDeviceCopy e (initial out r)) = []"
  proof (cases "reaches_location_check e out")
    case True
    with assms have same: "same_location e"
      by (simp add: reaches_acquisition_def)
    with True have "same_location_shortcut e out"
      by (simp add: same_location_shortcut_def)
    then show ?thesis
      unfolding sync_same_location [OF True same] by simp
  next
    case False
    then have "\<not> same_location_shortcut e out"
      by (simp add: same_location_shortcut_def)
    then show ?thesis
      unfolding sync_validation [OF False] by simp
  qed
  then show "trace (TpuDeviceToDeviceCopy e (initial out r)) = []"
    "\<exists>status. done_calls (TpuDeviceToDeviceCopy e (initial out r)) = [status]"
    "input_refcount (TpuDeviceToDeviceCopy e (initial out r)) =
       (if same_location_shortcut e out then r + 1 else r)"
    "host_callbacks (TpuDeviceToDeviceCopy e (initial out r)) = []"
    by simp_all
qed

lemma sync_no_stream:
  assumes "reaches_acquisition e out" "chosen_stream e = None"
  shows "trace (TpuDeviceToDeviceCopy e (initial out r)) = acquire_events e"
    "done_calls (TpuDeviceToDeviceCopy e (initial out r)) =
       [Some (RET_CHECK_failure ''dst_device_to_device_stream != nullptr'' [])]"
    "output_tensor (TpuDeviceToDeviceCopy e (initial out r)) = out"
    "input_refcount (TpuDeviceToDeviceCopy e (initial out r)) = r"
    "host_callbacks (TpuDeviceToDeviceCopy e (initial out r)) = []"
proof -
  from assms(1) have "reaches_acquisition e (output_tensor (initial out r))" by simp
  from impl_acquisition [OF this] assms(2)
  have "TpuDeviceToDeviceCopy e (initial out r) =
      call_done (Some (RET_CHECK_failure ''dst_device_to_device_stream != nullptr'' []))
        (acquire e (initial out r))"
    by (simp add: TpuDeviceToDeviceCopy_def)
  then show "trace (TpuDeviceToDeviceCopy e (initial out r)) = acquire_events e"
    "done_calls (TpuDeviceToDeviceCopy e (initial out r)) =
       [Some (RET_CHECK_failure ''dst_device_to_device_stream != nullptr'' [])]"
    "output_tensor (TpuDeviceToDeviceCopy e (initial out r)) = out"
    "input_refcount (TpuDeviceToDeviceCopy e (initial out r)) = r"
    "host_callbacks (TpuDeviceToDeviceCopy e (initial out r)) = []"
    by simp_all
qed

lemma sync_transfer:
  assumes "reaches_acquisition e out" "chosen_stream e = Some st"
    "transfer e (master_stream e) st (acquire e (initial out r)) = (status, c, s2)"
  shows "TpuDeviceToDeviceCopy e (initial out r) =
     (if ok status then run_cleanup c s2 else call_done status (run_cleanup c s2))"
proof -
  from assms(1) have "reaches_acquisition e (output_tensor (initial out r))" by simp
  from impl_acquisition [OF this] assms(2,3) show ?thesis
    by (simp add: TpuDeviceToDeviceCopy_def)
qed

lemma sync_precheck:
  assumes "reaches_acquisition e out" "chosen_stream e = Some st"
    "source_buffers e = None \<or> xla_tensor out = None \<or> already_allocated out"
  shows "trace (TpuDeviceToDeviceCopy e (initial out r)) =
           acquire_events e @ release_events (master_stream e) st"
    "\<exists>err. done_calls (TpuDeviceToDeviceCopy e (initial out r)) = [Some err]"
    "output_tensor (TpuDeviceToDeviceCopy e (initial out r)) = out"
    "input_refcount (TpuDeviceToDeviceCopy e (initial out r)) = r"
    "host_callbacks (TpuDeviceToDeviceCopy e (initial out r)) = []"
proof -
  from assms(3) have "source_buffers e = None \<or>
      xla_tensor (output_tensor (acquire e (initial out r))) = None \<or>
      already_allocated (output_tensor (acquire e (initial out r)))"
    by simp
  from transfer_precheck [OF this] obtain err where
    "transfer e (master_stream e) st (acquire e (initial out r)) =
       (Some err, Armed (master_stream e) st, acquire e (initial out r))"
    by blast
  from sync_transfer [OF assms(1,2) this]
  have *: "TpuDeviceToDeviceCopy e (initial out r) =
      call_done (Some err) (run_cleanup (Armed (master_stream e) st) (acquire e (initial out r)))"
    by simp
  show "trace (TpuDeviceToDeviceCopy e (initial out r)) =
           acquire_events e @ release_events (master_stream e) st"
    "\<exists>err. done_calls (TpuDeviceToDeviceCopy e (initial out r)) = [Some err]"
    "output_tensor (TpuDeviceToDeviceCopy e (initial out r)) = out"
    "input_refcount (TpuDeviceToDeviceCopy e (initial out r)) = r"
    "host_callbacks (TpuDeviceToDeviceCopy e (initial out r)) = []"
    unfolding * by simp_all
qed

lemma filter_return_pieces [simp]:
  "filter is_ReturnSubStream (acquire_events e) = []"
  "filter is_ReturnSubStream (allocate_events e) = []"
  "filter is_ReturnSubStream (wait_events e st ob) = []"
  "filter is_ReturnSubStream (map (leaf_copy st ob) ls) = []"
  "filter is_ReturnSubStream (index_table_events e st ob) = []"
  "filter is_ReturnSubStream (completion_events e st) = []"
  "filter is_ReturnSubStream (release_events m st) = release_events m st"
  by (auto simp: acquire_events_def allocate_events_def wait_events_def leaf_copy_def
      index_table_events_def completion_events_def release_events_def
      split: option.splits sum.splits)

lemma filter_reference_pieces [simp]:
  "filter is_reference_event (acquire_events e) = []"
  "filter is_reference_event (allocate_events e) = []"
  "filter is_reference_event (wait_events e st ob) = []"
  "filter is_reference_event (map (leaf_copy st ob) ls) = []"
  "filter is_reference_event (index_table_events e st ob) = []"
  "filter is_reference_event (completion_events e st) = [TensorReferenceRef]"
  "filter is_reference_event (release_events m st) = []"
  by (auto simp: acquire_events_def allocate_events_def wait_events_def leaf_copy_def
      index_table_events_def completion_events_def release_events_def
      split: option.splits sum.splits)

lemma destination_buffers_None:
  assumes "destination_buffers e = None"
  shows "(\<exists>err. shape_representation_fn e (shape (input_tensor e)) (dtype (input_tensor e)) False
            = Inl err) \<or>
         (\<exists>shp err. shape_representation_fn e (shape (input_tensor e)) (dtype (input_tensor e))
            False = Inr shp \<and>
            AllocateShapedBuffer e (dtype (input_tensor e)) shp
              (device_ordinal (parent (dst_stream e))) = Inl err)"
  using assms by (auto simp: destination_buffers_def split: sum.splits)

lemma destination_buffers_Some:
  assumes "destination_buffers e = Some ob"
  shows "\<exists>shp. shape_representation_fn e (shape (input_tensor e)) (dtype (input_tensor e))
            False = Inr shp \<and>
            AllocateShapedBuffer e (dtype (input_tensor e)) shp
              (device_ordinal (parent (dst_stream e))) = Inr ob"
  using assms by (auto simp: destination_buffers_def split: sum.splits)

lemma sync_alloc_fail:
  assumes "reaches_acquisition e out" "chosen_stream e = Some st"
    "source_buffers e = Some ib" "xla_tensor out = Some xo" "\<not> has_shaped_buffer xo"
    "destination_buffers e = None"
  shows "trace (TpuDeviceToDeviceCopy e (initial out r)) =
           acquire_events e @ allocate_events e @ release_events (master_stream e) st"
    "\<exists>err. done_calls (TpuDeviceToDeviceCopy e (initial out r)) = [Some err]"
    "output_tensor (TpuDeviceToDeviceCopy e (initial out r)) = out"
    "input_refcount (TpuDeviceToDeviceCopy e (initial out r)) = r"
    "host_callbacks (TpuDeviceToDeviceCopy e (initial out r)) = []"
proof -
  let ?s0 = "acquire e (initial out r)"
  have pre: "xla_tensor (output_tensor ?s0) = Some xo"
    "shape (input_tensor e) = shape (output_tensor ?s0)"
    using assms(4) reaches_acquisition_shape [OF assms(1)] by simp_all
  note tr = transfer_alloc [OF assms(3) pre(1) assms(5) pre(2), of "master_stream e" st]
  from destination_buffers_None [OF assms(6)]
  have "\<exists>err s2. transfer e (master_stream e) st ?s0 = (Some err, Armed (master_stream e) st, s2)
      \<and> trace s2 = trace ?s0 @ allocate_events e \<and> done_calls s2 = done_calls ?s0
      \<and> output_tensor s2 = output_tensor ?s0 \<and> input_refcount s2 = input_refcount ?s0
      \<and> host_callbacks s2 = host_callbacks ?s0"
  proof (elim disjE exE conjE)
    fix err
    assume "shape_representation_fn e (shape (input_tensor e)) (dtype (input_tensor e)) False
            = Inl err"
    then show ?thesis
      by (simp add: tr allocate_events_def)
  next
    fix shp err
    assume "shape_representation_fn e (shape (input_tensor e)) (dtype (input_tensor e))
            False = Inr shp"
      "AllocateShapedBuffer e (dtype (input_tensor e)) shp
              (device_ordinal (parent (dst_stream e))) = Inl err"
    then show ?thesis
      by (simp add: tr allocate_events_def)
  qed
  then obtain err s2 where
    t: "transfer e (master_stream e) st ?s0 = (Some err, Armed (master_stream e) st, s2)"
    and s2: "trace s2 = trace ?s0 @ allocate_events e" "done_calls s2 = done_calls ?s0"
      "output_tensor s2 = output_tensor ?s0" "input_refcount s2 = input_refcount ?s0"
      "host_callbacks s2 = host_callbacks ?s0"
    by blast
  from sync_transfer [OF assms(1,2) t]
  have *: "TpuDeviceToDeviceCopy e (initial out r) =
      call_done (Some err) (run_cleanup (Armed (master_stream e) st) s2)"
    by simp
  show "trace (TpuDeviceToDeviceCopy e (initial out r)) =
           acquire_events e @ allocate_events e @ release_events (master_stream e) st"
    "\<exists>err. done_calls (TpuDeviceToDeviceCopy e (initial out r)) = [Some err]"
    "output_tensor (TpuDeviceToDeviceCopy e (initial out r)) = out"
    "input_refcount (TpuDeviceToDeviceCopy e (initial out r)) = r"
    "host_callbacks (TpuDeviceToDeviceCopy e (initial out r)) = []"
    unfolding * by (simp_all add: s2)
qed

lemma sync_copy_stage_unfold:
  assumes "reaches_acquisition e out" "chosen_stream e = Some st"
    "source_buffers e = Some ib" "xla_tensor out = Some xo" "\<not> has_shaped_buffer xo"
    "destination_buffers e = Some ob"
  shows "\<exists>s1. trace s1 = acquire_events e @ allocate_events e \<and> done_calls s1 = [] \<and>
     output_tensor s1 = out\<lparr>xla_tensor := Some (xo\<lparr>shaped_buffer := Some ob\<rparr>)\<rparr> \<and>
     input_refcount s1 = r \<and> host_callbacks s1 = [] \<and>
     TpuDeviceToDeviceCopy e (initial out r) =
       (case enqueue_transfer e (master_stream e) st (Armed (master_stream e) st) ib ob s1 of
          (status, c, s2) \<Rightarrow>
            if ok status then run_cleanup c s2 else call_done status (run_cleanup c s2))"
proof -
  let ?s0 = "acquire e (initial out r)"
  have pre: "xla_tensor (output_tensor ?s0) = Some xo"
    "shape (input_tensor e) = shape (output_tensor ?s0)"
    using assms(4) reaches_acquisition_shape [OF assms(1)] by simp_all
  note tr = transfer_alloc [OF assms(3) pre(1) assms(5) pre(2), of "master_stream e" st]
  from destination_buffers_Some [OF assms(6)] obtain shp where
    shp: "shape_representation_fn e (shape (input_tensor e)) (dtype (input_tensor e))
            False = Inr shp"
         "AllocateShapedBuffer e (dtype (input_tensor e)) shp
              (device_ordinal (parent (dst_stream e))) = Inr ob"
    by blast
  let ?s1 = "update_xla_output (set_shaped_buffer ob)
                    (emit (CallAllocateShapedBuffer (dtype (input_tensor e)) shp
                             (device_ordinal (parent (dst_stream e)))) ?s0)"
  have t: "transfer e (master_stream e) st ?s0 =
      enqueue_transfer e (master_stream e) st (Armed (master_stream e) st) ib ob ?s1"
    by (simp add: tr shp)
  obtain status c s2 where
    en: "enqueue_transfer e (master_stream e) st (Armed (master_stream e) st) ib ob ?s1 =
           (status, c, s2)"
    by (cases "enqueue_transfer e (master_stream e) st (Armed (master_stream e) st) ib ob ?s1")
  from sync_transfer [OF assms(1,2) t [unfolded en]] en
  have "TpuDeviceToDeviceCopy e (initial out r) =
       (case enqueue_transfer e (master_stream e) st (Armed (master_stream e) st) ib ob ?s1 of
          (status, c, s2) \<Rightarrow>
            if ok status then run_cleanup c s2 else call_done status (run_cleanup c s2))"
    by simp
  moreover have "trace ?s1 = acquire_events e @ allocate_events e" "done_calls ?s1 = []"
    "output_tensor ?s1 = out\<lparr>xla_tensor := Some (xo\<lparr>shaped_buffer := Some ob\<rparr>)\<rparr>"
    "input_refcount ?s1 = r" "host_callbacks ?s1 = []"
    using assms(4) by (simp_all add: allocate_events_def shp set_shaped_buffer_def)
  ultimately show ?thesis by blast
qed

lemma sync_copy_stage:
  assumes "reaches_acquisition e out" "chosen_stream e = Some st"
    "source_buffers e = Some ib" "xla_tensor out = Some xo" "\<not> has_shaped_buffer xo"
    "destination_buffers e = Some ob"
  shows
    "(done_calls (TpuDeviceToDeviceCopy e (initial out r)) = [] \<and>
      host_callbacks (TpuDeviceToDeviceCopy e (initial out r)) =
        [(st, HostCallback (master_stream e) st)] \<and>
      input_refcount (TpuDeviceToDeviceCopy e (initial out r)) = r + 1 \<and>
      (\<forall>l\<in>set (leaves ib). sizes_agree ob l) \<and>
      output_tensor (TpuDeviceToDeviceCopy e (initial out r)) =
        out\<lparr>xla_tensor := Some (ResetDefinitionEvent (Event (parent (dst_stream e))) st
                 (xo\<lparr>shaped_buffer := Some ob\<rparr>))\<rparr> \<and>
      trace (TpuDeviceToDeviceCopy e (initial out r)) =
        acquire_events e @ allocate_events e @ wait_events e st ob @
        map (leaf_copy st ob) (leaves ib) @ index_table_events e st ob @
        completion_events e st)
     \<or>
     ((\<exists>err. done_calls (TpuDeviceToDeviceCopy e (initial out r)) = [Some err]) \<and>
      host_callbacks (TpuDeviceToDeviceCopy e (initial out r)) = [] \<and>
      input_refcount (TpuDeviceToDeviceCopy e (initial out r)) = r \<and>
      output_tensor (TpuDeviceToDeviceCopy e (initial out r)) =
        out\<lparr>xla_tensor := Some (xo\<lparr>shaped_buffer := Some ob\<rparr>)\<rparr> \<and>
      (\<exists>k w. k \<le> length (takeWhile (sizes_agree ob) (leaves ib)) \<and>
         (w = [] \<or> k = length (leaves ib) \<and> IsTuple (on_device_shape ob) \<and>
            (w = [CallWriteTupleIndexTablesAsync (host_to_device_stream e)] \<or>
             w = index_table_events e st ob)) \<and>
         trace (TpuDeviceToDeviceCopy e (initial out r)) =
           acquire_events e @ allocate_events e @ wait_events e st ob @
           map (leaf_copy st ob) (take k (leaves ib)) @ w @
           release_events (master_stream e) st))"
    (is "?success \<or> ?failure")
proof -
  let ?S = "TpuDeviceToDeviceCopy e (initial out r)"
  from sync_copy_stage_unfold [OF assms, of r] obtain s1 where
    s1: "trace s1 = acquire_events e @ allocate_events e" "done_calls s1 = []"
      "output_tensor s1 = out\<lparr>xla_tensor := Some (xo\<lparr>shaped_buffer := Some ob\<rparr>)\<rparr>"
      "input_refcount s1 = r" "host_callbacks s1 = []"
    and S: "?S =
       (case enqueue_transfer e (master_stream e) st (Armed (master_stream e) st) ib ob s1 of
          (status, c, s2) \<Rightarrow>
            if ok status then run_cleanup c s2 else call_done status (run_cleanup c s2))"
    by blast
  obtain status c s2 where
    en: "enqueue_transfer e (master_stream e) st (Armed (master_stream e) st) ib ob s1 =
           (status, c, s2)"
    by (cases "enqueue_transfer e (master_stream e) st (Armed (master_stream e) st) ib ob s1")
  note res = enqueue_transfer_result [OF en]
  show ?thesis
  proof (cases status)
    case None
    with res have c: "c = Released" and
      s2: "done_calls s2 = done_calls s1"
        "\<forall>l\<in>set (leaves ib). sizes_agree ob l"
        "output_tensor s2 = (output_tensor s1)\<lparr>xla_tensor :=
           map_option (ResetDefinitionEvent (Event (parent (dst_stream e))) st)
             (xla_tensor (output_tensor s1))\<rparr>"
        "trace s2 = trace s1 @ wait_events e st ob @ map (leaf_copy st ob) (leaves ib) @
           index_table_events e st ob @ completion_events e st"
        "input_refcount s2 = input_refcount s1 + 1"
        "host_callbacks s2 = host_callbacks s1 @ [(st, HostCallback (master_stream e) st)]"
      by simp_all
    from S en None c have "?S = s2" by simp
    with s2 s1 have ?success by simp
    then show ?thesis ..
  next
    case (Some err)
    with res have c: "c = Armed (master_stream e) st" and
      s2: "done_calls s2 = done_calls s1" "output_tensor s2 = output_tensor s1"
        "input_refcount s2 = input_refcount s1" "host_callbacks s2 = host_callbacks s1"
      and "\<exists>k w. k \<le> length (takeWhile (sizes_agree ob) (leaves ib)) \<and>
         (w = [] \<or> k = length (leaves ib) \<and> IsTuple (on_device_shape ob) \<and>
            (w = [CallWriteTupleIndexTablesAsync (host_to_device_stream e)] \<or>
             w = index_table_events e st ob)) \<and>
         trace s2 = trace s1 @ wait_events e st ob @
            map (leaf_copy st ob) (take k (leaves ib)) @ w"
      by simp_all
    then obtain k w where
      kw: "k \<le> length (takeWhile (sizes_agree ob) (leaves ib))"
        "w = [] \<or> k = length (leaves ib) \<and> IsTuple (on_device_shape ob) \<and>
            (w = [CallWriteTupleIndexTablesAsync (host_to_device_stream e)] \<or>
             w = index_table_events e st ob)"
        "trace s2 = trace s1 @ wait_events e st ob @
            map (leaf_copy st ob) (take k (leaves ib)) @ w"
      by blast
    from S en Some c
    have S': "?S = call_done (Some err) (run_cleanup (Armed (master_stream e) st) s2)"
      by simp
    have "trace ?S = acquire_events e @ allocate_events e @ wait_events e st ob @
           map (leaf_copy st ob) (take k (leaves ib)) @ w @
           release_events (master_stream e) st"
      unfolding S' using kw(3) s1 by simp
    with kw(1,2) have "\<exists>k w. k \<le> length (takeWhile (sizes_agree ob) (leaves ib)) \<and>
         (w = [] \<or> k = length (leaves ib) \<and> IsTuple (on_device_shape ob) \<and>
            (w = [CallWriteTupleIndexTablesAsync (host_to_device_stream e)] \<or>
             w = index_table_events e st ob)) \<and>
         trace ?S =
           acquire_events e @ allocate_events e @ wait_events e st ob @
           map (leaf_copy st ob) (take k (leaves ib)) @ w @
           release_events (master_stream e) st"
      by blast
    moreover have "done_calls ?S = [Some err]" "host_callbacks ?S = []"
      "input_refcount ?S = r"
      "output_tensor ?S = out\<lparr>xla_tensor := Some (xo\<lparr>shaped_buffer := Some ob\<rparr>)\<rparr>"
      unfolding S' using s1 s2 by simp_all
    ultimately have ?failure by blast
    then show ?thesis ..
  qed
qed

lemma sync_first_mismatch:
  assumes "reaches_acquisition e out" "chosen_stream e = Some st"
    "source_buffers e = Some ib" "xla_tensor out = Some xo" "\<not> has_shaped_buffer xo"
    "destination_buffers e = Some ob"
    "\<exists>l\<in>set (leaves ib). \<not> sizes_agree ob l"
    "\<forall>l\<in>set (takeWhile (sizes_agree ob) (leaves ib)).
       EnqueueOnTpuDeviceSendRecvLocal e st (snd l) (buffer ob (fst l)) = None"
  shows "done_calls (TpuDeviceToDeviceCopy e (initial out r)) =
           [Some (size_mismatch_error ob (hd (dropWhile (sizes_agree ob) (leaves ib))))]"
    "trace (TpuDeviceToDeviceCopy e (initial out r)) =
           acquire_events e @ allocate_events e @ wait_events e st ob @
           map (leaf_copy st ob) (takeWhile (sizes_agree ob) (leaves ib)) @
           release_events (master_stream e) st"
proof -
  let ?S = "TpuDeviceToDeviceCopy e (initial out r)"
  let ?err = "size_mismatch_error ob (hd (dropWhile (sizes_agree ob) (leaves ib)))"
  from sync_copy_stage_unfold [OF assms(1-6), of r] obtain s1 where
    s1: "trace s1 = acquire_events e @ allocate_events e" "done_calls s1 = []"
    and S: "?S =
       (case enqueue_transfer e (master_stream e) st (Armed (master_stream e) st) ib ob s1 of
          (status, c, s2) \<Rightarrow>
            if ok status then run_cleanup c s2 else call_done status (run_cleanup c s2))"
    by blast
  obtain rl s2 where loop:
    "copy_leaves e st ob (leaves ib) (wait_for_buffers e st ob s1) = (rl, s2)"
    by (cases "copy_leaves e st ob (leaves ib) (wait_for_buffers e st ob s1)")
  from copy_leaves_first_mismatch [OF assms(8,7) loop] copy_leaves_frame [OF loop]
  have rl: "rl = Some ?err"
    and s2: "trace s2 = trace s1 @ wait_events e st ob @
               map (leaf_copy st ob) (takeWhile (sizes_agree ob) (leaves ib))"
      "done_calls s2 = done_calls s1"
    by simp_all
  from loop rl have "enqueue_transfer e (master_stream e) st (Armed (master_stream e) st)
      ib ob s1 = (Some ?err, Armed (master_stream e) st, s2)"
    by (simp add: enqueue_transfer_def)
  with S have S': "?S = call_done (Some ?err) (run_cleanup (Armed (master_stream e) st) s2)"
    by simp
  show "done_calls ?S = [Some ?err]"
    "trace ?S = acquire_events e @ allocate_events e @ wait_events e st ob @
           map (leaf_copy st ob) (takeWhile (sizes_agree ob) (leaves ib)) @
           release_events (master_stream e) st"
    unfolding S' using s1 s2 by simp_all
qed

lemma run_host_callbacks_none:
  assumes "host_callbacks s = []"
  shows "trace (run_host_callbacks s) = trace s"
    "done_calls (run_host_callbacks s) = done_calls s"
    "output_tensor (run_host_callbacks s) = output_tensor s"
    "input_refcount (run_host_callbacks s) = input_refcount s"
    "host_callbacks (run_host_callbacks s) = []"
  using assms by (simp_all add: run_host_callbacks_def)

lemma run_host_callbacks_one:
  assumes "host_callbacks s = [(st', HostCallback m st)]"
  shows "trace (run_host_callbacks s) =
           trace s @ release_events m st @ [TensorReferenceUnref]"
    "done_calls (run_host_callbacks s) = done_calls s @ [OK]"
    "output_tensor (run_host_callbacks s) = output_tensor s"
    "input_refcount (run_host_callbacks s) = input_refcount s - 1"
    "host_callbacks (run_host_callbacks s) = []"
  using assms by (simp_all add: run_host_callbacks_def)

lemma sync_outcome:
  "((\<exists>status. done_calls (TpuDeviceToDeviceCopy e (initial out r)) = [status]) \<and>
    (reaches_acquisition e out \<longrightarrow>
       (\<exists>err. done_calls (TpuDeviceToDeviceCopy e (initial out r)) = [Some err])) \<and>
    host_callbacks (TpuDeviceToDeviceCopy e (initial out r)) = [] \<and>
    input_refcount (TpuDeviceToDeviceCopy e (initial out r)) =
      (if same_location_shortcut e out then r + 1 else r) \<and>
    filter is_reference_event (trace (TpuDeviceToDeviceCopy e (initial out r))) = [] \<and>
    filter is_ReturnSubStream (trace (TpuDeviceToDeviceCopy e (initial out r))) =
      (if reaches_acquisition e out
       then (case chosen_stream e of
               Some st \<Rightarrow> release_events (master_stream e) st
             | None \<Rightarrow> [])
       else []))
   \<or>
   (\<exists>st. reaches_acquisition e out \<and> chosen_stream e = Some st \<and>
      done_calls (TpuDeviceToDeviceCopy e (initial out r)) = [] \<and>
      host_callbacks (TpuDeviceToDeviceCopy e (initial out r)) =
        [(st, HostCallback (master_stream e) st)] \<and>
      input_refcount (TpuDeviceToDeviceCopy e (initial out r)) = r + 1 \<and>
      filter is_reference_event (trace (TpuDeviceToDeviceCopy e (initial out r))) =
        [TensorReferenceRef] \<and>
      filter is_ReturnSubStream (trace (TpuDeviceToDeviceCopy e (initial out r))) = [])"
  (is "?sync \<or> ?deferred")
proof (cases "reaches_acquisition e out")
  case False
  from sync_early [OF this, of r] False have ?sync by simp
  then show ?thesis ..
next
  case reach: True
  note ns = reaches_acquisition_no_shortcut [OF reach]
  show ?thesis
  proof (cases "chosen_stream e")
    case None
    from sync_no_stream [OF reach this, of r] reach None ns have ?sync by simp
    then show ?thesis ..
  next
    case (Some st)
    show ?thesis
    proof (cases "source_buffers e = None \<or> xla_tensor out = None \<or> already_allocated out")
      case True
      from sync_precheck [OF reach Some this, of r] reach Some ns have ?sync by auto
      then show ?thesis ..
    next
      case False
      then obtain ib xo where
        pre: "source_buffers e = Some ib" "xla_tensor out = Some xo" "\<not> has_shaped_buffer xo"
        by (auto simp: already_allocated_def)
      show ?thesis
      proof (cases "destination_buffers e")
        case None
        from sync_alloc_fail [OF reach Some pre this, of r] reach Some ns have ?sync by auto
        then show ?thesis ..
      next
        case ob: (Some ob)
        note cs = sync_copy_stage [OF reach Some pre ob, of r]
        show ?thesis
        proof (cases "done_calls (TpuDeviceToDeviceCopy e (initial out r)) = []")
          case False
          with cs obtain err k w where
            "done_calls (TpuDeviceToDeviceCopy e (initial out r)) = [Some err]"
            "host_callbacks (TpuDeviceToDeviceCopy e (initial out r)) = []"
            "input_refcount (TpuDeviceToDeviceCopy e (initial out r)) = r"
            "w = [] \<or> k = length (leaves ib) \<and> IsTuple (on_device_shape ob) \<and>
              (w = [CallWriteTupleIndexTablesAsync (host_to_device_stream e)] \<or>
               w = index_table_events e st ob)"
            "trace (TpuDeviceToDeviceCopy e (initial out r)) =
               acquire_events e @ allocate_events e @ wait_events e st ob @
               map (leaf_copy st ob) (take k (leaves ib)) @ w @
               release_events (master_stream e) st"
            by blast
          moreover from this(4) have "filter is_reference_event w = []"
            "filter is_ReturnSubStream w = []"
            by auto
          ultimately have ?sync using reach Some ns by simp
          then show ?thesis ..
        next
          case True
          with cs have "done_calls (TpuDeviceToDeviceCopy e (initial out r)) = []"
            "host_callbacks (TpuDeviceToDeviceCopy e (initial out r)) =
               [(st, HostCallback (master_stream e) st)]"
            "input_refcount (TpuDeviceToDeviceCopy e (initial out r)) = r + 1"
            "trace (TpuDeviceToDeviceCopy e (initial out r)) =
               acquire_events e @ allocate_events e @ wait_events e st ob @
               map (leaf_copy st ob) (leaves ib) @ index_table_events e st ob @
               completion_events e st"
            by simp_all
          with reach Some have ?deferred by simp
          then show ?thesis ..
        qed
      qed
    qed
  qed
qed

subsection \<open>Kinds of events in the pieces of a trace\<close>

lemma filter_record_pieces [simp]:
  "filter is_ThenRecordEvent (acquire_events e) = []"
  "filter is_ThenRecordEvent (allocate_events e) = []"
  "filter is_ThenRecordEvent (wait_events e st ob) = []"
  "filter is_ThenRecordEvent (map (leaf_copy st ob) ls) = []"
  "filter is_ThenRecordEvent (index_table_events e st ob) = []"
  "filter is_ThenRecordEvent (release_events m st) = []"
  by (auto simp: acquire_events_def allocate_events_def wait_events_def leaf_copy_def
      index_table_events_def release_events_def
      split: option.splits sum.splits)

lemma filter_index_pieces [simp]:
  "filter is_index_table_write (acquire_events e) = []"
  "filter is_index_table_write (allocate_events e) = []"
  "filter is_index_table_write (wait_events e st ob) = []"
  "filter is_index_table_write (map (leaf_copy st ob) ls) = []"
  "filter is_index_table_write (release_events m st) = []"
  by (auto simp: acquire_events_def allocate_events_def wait_events_def leaf_copy_def
      release_events_def
      split: option.splits sum.splits)

lemma filter_leaf_copy_pieces [simp]:
  "filter is_leaf_copy (acquire_events e) = []"
  "filter is_leaf_copy (allocate_events e) = []"
  "filter is_leaf_copy (wait_events e st ob) = []"
  by (auto simp: acquire_events_def allocate_events_def wait_events_def
      split: option.splits sum.splits)

lemma takeWhile_short:
  "\<exists>x\<in>set xs. \<not> P x \<Longrightarrow> length (takeWhile P xs) < length xs"
  by (induction xs) auto

subsection \<open>Evaluating concrete calls\<close>

lemmas call_defs = array_call_def tuple_call_def padded_call_def empty_call_def
  uninitialized_empty_call_def aliased_call_def uninitialized_aliased_call_def
  input_array_def input_tuple_def
  input_empty_def output_declared_def output_empty_def output_transposed_def
  output_allocated_def src_array_def dst_array_def src_tuple_def dst_tuple_def
  dst_tuple_padded_def mem_def tpu0_def tpu1_def

lemmas model_defs = TpuDeviceToDeviceCopy_def impl_def transfer_def enqueue_transfer_def
  wait_for_buffers_def write_index_tables_def complete_transfer_def
  CheckIfTPUInitialized_def ok_def num_elements_def has_shaped_buffer_def initial_def
  emit_def call_done_def assign_output_def update_xla_output_def set_shaped_buffer_def
  ResetDefinitionEvent_def TensorReference_def
  Unref_def ThenDoHostCallback_def return_substream_body_def run_host_callbacks_def
  RET_CHECK_failure_def after_call_def after_callbacks_def Let_def

lemmas vocabulary_defs = reaches_location_check_def same_location_def
  reaches_acquisition_def master_stream_def chosen_stream_def source_buffers_def
  already_allocated_def destination_buffers_def acquire_events_def release_events_def
  allocate_events_def wait_events_def leaf_copy_def sizes_agree_def size_mismatch_error_def
  index_table_events_def completion_events_def zero_element_shortcut_def
  same_location_shortcut_def validation_status_def

section \<open>The properties\<close>

text \<open>
  Claim C1. Every call of \<^verbatim>\<open>TpuDeviceToDeviceCopy\<close> invokes \<^verbatim>\<open>done\<close> exactly
  once. When the function returns, either \<^verbatim>\<open>done\<close> has been called once and no host
  callback is attached, or it has not been called and exactly one host callback is
  attached; every host callback calls \<^verbatim>\<open>done\<close> once, with success; so after the
  attached callbacks have run \<^verbatim>\<open>done\<close> has been called exactly once. A status of
  \<^verbatim>\<open>impl\<close> that is not OK is the status \<^verbatim>\<open>done\<close> receives. The function returns
  no status: \<open>TpuDeviceToDeviceCopy\<close> yields the state only.
\<close>

theorem done_exactly_once:
  "length (done_calls (after_call e out r)) + length (host_callbacks (after_call e out r)) = 1 \<and>
   (\<forall>cb s. done_calls (run_host_callback cb s) = done_calls s @ [OK]) \<and>
   length (done_calls (after_callbacks e out r)) = 1 \<and>
   host_callbacks (after_callbacks e out r) = [] \<and>
   (\<not> ok (fst (impl e (initial out r))) \<longrightarrow>
      done_calls (after_call e out r) = [fst (impl e (initial out r))])"
proof -
  let ?S = "TpuDeviceToDeviceCopy e (initial out r)"
  have each: "done_calls (run_host_callback cb s) = done_calls s @ [OK]" for cb s
    by (cases cb) simp
  have counts: "length (done_calls ?S) + length (host_callbacks ?S) = 1 \<and>
      length (done_calls (run_host_callbacks ?S)) = 1 \<and>
      host_callbacks (run_host_callbacks ?S) = []"
    using sync_outcome [of e out r]
  proof (elim disjE conjE exE)
    fix status
    assume "done_calls ?S = [status]" "host_callbacks ?S = []"
    then show ?thesis
      by (simp add: run_host_callbacks_none)
  next
    fix st
    assume "done_calls ?S = []" "host_callbacks ?S = [(st, HostCallback (master_stream e) st)]"
    then show ?thesis
      by (simp add: run_host_callbacks_one)
  qed
  have failure: "done_calls ?S = [fst (impl e (initial out r))]"
    if "\<not> ok (fst (impl e (initial out r)))"
  proof -
    obtain status s' where i: "impl e (initial out r) = (status, s')"
      by (cases "impl e (initial out r)")
    with that have S: "?S = call_done status s'"
      by (simp add: TpuDeviceToDeviceCopy_def)
    from counts have "length (done_calls ?S) \<le> 1" by simp
    with S have "done_calls s' = []" by simp
    with S i show ?thesis by simp
  qed
  from each counts failure show ?thesis
    by (simp add: after_call_def after_callbacks_def)
qed

text \<open>A call whose destination already holds buffers: the failed check reaches \<^verbatim>\<open>done\<close>.\<close>

theorem done_exactly_once_witness:
  "\<not> ok (fst (impl array_call (initial output_allocated 1))) \<and>
   done_calls (after_call array_call output_allocated 1) =
     [Some (RET_CHECK_failure ''xla_output != nullptr && !xla_output->has_shaped_buffer()'' [])] \<and>
   host_callbacks (after_call array_call output_allocated 1) = [] \<and>
   length (done_calls (after_callbacks array_call output_allocated 1)) = 1"
proof -
  have h: "fst (impl array_call (initial output_allocated 1)) =
     Some (RET_CHECK_failure ''xla_output != nullptr && !xla_output->has_shaped_buffer()'' [])"
    by (simp add: call_defs model_defs)
  with done_exactly_once [of array_call output_allocated 1] show ?thesis
    by auto
qed

text \<open>
  Claim C2. When substreams are in use, the call gets as far as asking the master stream
  for a substream and the master stream hands one out, \<^verbatim>\<open>ReturnSubStream\<close> is called
  for it exactly once by the time the callbacks have run: either the call failed and the
  cleanup object returned it before the function returned, or the call succeeded, nothing
  was returned yet when the function returned, and the attached host callback returns it.
\<close>

theorem substream_returned_once:
  assumes "reaches_acquisition e out" and "should_use_substream e"
    and "GetOrCreateSubStream e (device_to_device_stream e 0) = Some sub"
  shows "filter is_ReturnSubStream (trace (after_callbacks e out r)) =
           [CallReturnSubStream (device_to_device_stream e 0) sub] \<and>
         (((\<exists>err. done_calls (after_call e out r) = [Some err]) \<and>
           host_callbacks (after_call e out r) = [] \<and>
           filter is_ReturnSubStream (trace (after_call e out r)) =
             [CallReturnSubStream (device_to_device_stream e 0) sub])
          \<or>
          (done_calls (after_call e out r) = [] \<and>
           host_callbacks (after_call e out r) =
             [(sub, HostCallback (Some (device_to_device_stream e 0)) sub)] \<and>
           filter is_ReturnSubStream (trace (after_call e out r)) = []))"
proof -
  let ?S = "TpuDeviceToDeviceCopy e (initial out r)"
  let ?ret = "CallReturnSubStream (device_to_device_stream e 0) sub"
  from assms(2,3) have
    m: "master_stream e = Some (device_to_device_stream e 0)" and
    c: "chosen_stream e = Some sub"
    by (simp_all add: master_stream_def chosen_stream_def)
  then have rel: "release_events (master_stream e) sub = [?ret]"
    by (simp add: release_events_def)
  from sync_outcome [of e out r] show ?thesis
  proof (elim disjE conjE exE)
    fix status
    assume a: "reaches_acquisition e out \<longrightarrow> (\<exists>err. done_calls ?S = [Some err])"
      "host_callbacks ?S = []"
      "filter is_ReturnSubStream (trace ?S) =
         (if reaches_acquisition e out
          then (case chosen_stream e of
                  Some st \<Rightarrow> release_events (master_stream e) st
                | None \<Rightarrow> [])
          else [])"
    with assms(1) c rel have "filter is_ReturnSubStream (trace ?S) = [?ret]"
      "\<exists>err. done_calls ?S = [Some err]"
      by simp_all
    with a(2) show ?thesis
      by (simp add: after_call_def after_callbacks_def run_host_callbacks_none)
  next
    fix st
    assume a: "chosen_stream e = Some st" "done_calls ?S = []"
      "host_callbacks ?S = [(st, HostCallback (master_stream e) st)]"
      "filter is_ReturnSubStream (trace ?S) = []"
    with c have "st = sub" by simp
    with a m rel show ?thesis
      by (simp add: after_call_def after_callbacks_def run_host_callbacks_one)
  qed
qed

theorem substream_returned_once_witness:
  "reaches_acquisition tuple_call output_declared \<and> should_use_substream tuple_call \<and>
   GetOrCreateSubStream tuple_call (device_to_device_stream tuple_call 0) =
     Some (Stream 20 tpu1) \<and>
   filter is_ReturnSubStream (trace (after_callbacks tuple_call output_declared 1)) =
     [CallReturnSubStream (Stream 10 tpu1) (Stream 20 tpu1)] \<and>
   filter is_ReturnSubStream (trace (after_call tuple_call output_declared 1)) = []"
proof -
  have h: "reaches_acquisition tuple_call output_declared" "should_use_substream tuple_call"
    "GetOrCreateSubStream tuple_call (device_to_device_stream tuple_call 0) =
       Some (Stream 20 tpu1)"
    by (simp_all add: call_defs vocabulary_defs num_elements_def)
  have d: "device_to_device_stream tuple_call 0 = Stream 10 tpu1"
    "done_calls (after_call tuple_call output_declared 1) = []"
    by (simp_all add: call_defs model_defs)
  from substream_returned_once [OF h, of 1] h d show ?thesis
    by simp
qed

text \<open>
  Claim C3, as the specification states it, fails: a call between two devices on a
  platform that is not initialized ends at the initialization check, which comes before
  the test for an empty input, and reports the failed precondition.
\<close>

theorem zero_element_no_device_operation_counterexample:
  "num_elements (shape (input_tensor uninitialized_empty_call)) = 0 \<and>
   done_calls (after_callbacks uninitialized_empty_call output_empty 1) =
     [Some (Error FAILED_PRECONDITION [Str ''The TPU system has not been initialized.''])]"
  by (simp add: call_defs model_defs)

text \<open>
  Claim C3, amended. For every input whose shape has zero elements the call enqueues
  nothing, checks out no substream, allocates nothing, attaches no host callback and
  leaves the destination tensor as it was, and \<^verbatim>\<open>done\<close> is called once: with success
  when the two device names are equal or the platform is initialized, and with the
  failed precondition of the initialization check otherwise.
\<close>

theorem zero_element_no_device_operation:
  assumes "num_elements (shape (input_tensor e)) = 0"
  shows "trace (after_call e out r) = [] \<and>
         host_callbacks (after_call e out r) = [] \<and>
         output_tensor (after_call e out r) = out \<and>
         after_callbacks e out r = after_call e out r \<and>
         done_calls (after_call e out r) =
           [if src_name e = dst_name e \<or> Initialized e then OK
            else Some (Error FAILED_PRECONDITION
                         [Str ''The TPU system has not been initialized.''])]"
proof -
  from assms have "\<not> reaches_location_check e out"
    by (simp add: reaches_location_check_def)
  from sync_validation [OF this, of r] assms
  have S: "after_call e out r =
      call_done (if src_name e = dst_name e \<or> Initialized e then OK
            else Some (Error FAILED_PRECONDITION
                         [Str ''The TPU system has not been initialized.'']))
        (initial out r)"
    by (simp add: after_call_def validation_status_def)
  have "host_callbacks (after_call e out r) = []"
    unfolding S by simp
  then have "after_callbacks e out r = after_call e out r"
    by (simp add: after_callbacks_def run_host_callbacks_def)
  then show ?thesis
    unfolding S by simp
qed

theorem zero_element_no_device_operation_witness:
  "num_elements (shape (input_tensor empty_call)) = 0 \<and>
   trace (after_call empty_call output_empty 1) = [] \<and>
   done_calls (after_call empty_call output_empty 1) = [OK]"
proof -
  have h: "num_elements (shape (input_tensor empty_call)) = 0"
    by (simp add: call_defs num_elements_def)
  from zero_element_no_device_operation [OF h, of output_empty 1] h show ?thesis
    by (simp add: call_defs)
qed

text \<open>
  Claim C4, as the specification states it, fails: the location check is not the first
  check. Here types and shapes agree, the input can use DMA and the two compute streams
  report the same memory location, but the devices differ and the platform is not
  initialized: the call reports the failed precondition and the destination tensor
  stays as it was.
\<close>

theorem same_location_shortcut_taken_counterexample:
  "same_location uninitialized_aliased_call \<and>
   dtype (input_tensor uninitialized_aliased_call) = dtype output_declared \<and>
   shape (input_tensor uninitialized_aliased_call) = shape output_declared \<and>
   CanUseDMA (input_tensor uninitialized_aliased_call) \<and>
   done_calls (after_callbacks uninitialized_aliased_call output_declared 1) =
     [Some (Error FAILED_PRECONDITION [Str ''The TPU system has not been initialized.''])] \<and>
   xla_tensor (output_tensor (after_callbacks uninitialized_aliased_call output_declared 1)) =
     Some \<lparr>shaped_buffer = None, definition_event = None, streams_defined_on = []\<rparr>"
  by (simp add: call_defs model_defs same_location_def)

text \<open>
  Claim C4, amended. When the call gets to the location check (the initialization check
  passed, the input has elements, the source stream exists, types and shapes agree, the
  input can use DMA) and the two compute streams report the same shared memory location,
  the destination tensor becomes the input tensor, sharing its buffer, \<^verbatim>\<open>done\<close> is
  called with success and nothing is enqueued, acquired or allocated. The check comes
  after the earlier checks: a call that does not get to it ends with the outcome of those
  checks, whatever the streams report: the destination tensor stays as it was, nothing
  is enqueued, and \<^verbatim>\<open>done\<close> receives the status of the validation, which is success
  only for an input without elements that passed the initialization check. The check
  comes before the acquisition: whenever the streams report the same location the trace
  is empty and no callback is attached.
\<close>

theorem same_location_shortcut_taken:
  "(reaches_location_check e out \<and> same_location e \<longrightarrow>
      after_call e out r =
        \<lparr>output_tensor = input_tensor e, trace = [], done_calls = [OK],
         input_refcount = r + 1, host_callbacks = []\<rparr>) \<and>
   (\<not> reaches_location_check e out \<longrightarrow>
      after_call e out r =
        \<lparr>output_tensor = out, trace = [], done_calls = [validation_status e out],
         input_refcount = r, host_callbacks = []\<rparr> \<and>
      (validation_status e out = OK \<longleftrightarrow> zero_element_shortcut e)) \<and>
   (same_location e \<longrightarrow>
      trace (after_call e out r) = [] \<and> host_callbacks (after_call e out r) = [])"
proof (intro conjI impI)
  assume "reaches_location_check e out \<and> same_location e"
  then have "reaches_location_check e out" "same_location e" by simp_all
  from sync_same_location [OF this, of r]
  show "after_call e out r =
        \<lparr>output_tensor = input_tensor e, trace = [], done_calls = [OK],
         input_refcount = r + 1, host_callbacks = []\<rparr>"
    by (simp add: after_call_def call_done_def assign_output_def initial_def)
next
  assume a: "\<not> reaches_location_check e out"
  from sync_validation [OF a, of r]
  show "after_call e out r =
        \<lparr>output_tensor = out, trace = [], done_calls = [validation_status e out],
         input_refcount = r, host_callbacks = []\<rparr>"
    by (simp add: after_call_def call_done_def initial_def)
  from validation_status_ok [OF a]
  show "validation_status e out = OK \<longleftrightarrow> zero_element_shortcut e" .
next
  assume "same_location e"
  then have "\<not> reaches_acquisition e out"
    by (simp add: reaches_acquisition_def)
  from sync_early [OF this, of r]
  show "trace (after_call e out r) = []" "host_callbacks (after_call e out r) = []"
    by (simp_all add: after_call_def)
qed

theorem same_location_shortcut_taken_witness:
  "reaches_location_check aliased_call output_declared \<and> same_location aliased_call \<and>
   after_call aliased_call output_declared 1 =
     \<lparr>output_tensor = input_array, trace = [], done_calls = [OK],
      input_refcount = 2, host_callbacks = []\<rparr> \<and>
   \<not> reaches_location_check aliased_call output_transposed \<and>
   after_call aliased_call output_transposed 1 =
     \<lparr>output_tensor = output_transposed, trace = [],
      done_calls = [Some (RET_CHECK_failure ''input->shape() == output->shape()'' [])],
      input_refcount = 1, host_callbacks = []\<rparr>"
proof -
  have h: "reaches_location_check aliased_call output_declared" "same_location aliased_call"
    "\<not> reaches_location_check aliased_call output_transposed"
    by (simp_all add: call_defs vocabulary_defs num_elements_def)
  have i: "input_tensor aliased_call = input_array"
    by (simp add: aliased_call_def array_call_def)
  have v: "validation_status aliased_call output_transposed =
      Some (RET_CHECK_failure ''input->shape() == output->shape()'' [])"
    by (simp add: call_defs vocabulary_defs num_elements_def)
  from same_location_shortcut_taken [of aliased_call output_declared 1]
    same_location_shortcut_taken [of aliased_call output_transposed 1]
    h i v show ?thesis
    by simp
qed

text \<open>
  Claim C5, as the specification states it, fails: for an input without elements the
  call reports success before shapes and types are compared, here for the shapes
  \<open>[2, 0]\<close> and \<open>[0, 2]\<close>.
\<close>

theorem mismatch_rejected_counterexample:
  "shape (input_tensor empty_call) = [2, 0] \<and> shape output_transposed = [0, 2] \<and>
   dtype (input_tensor empty_call) = dtype output_transposed \<and>
   done_calls (after_callbacks empty_call output_transposed 1) = [OK]"
  by (simp add: call_defs model_defs)

text \<open>
  Claim C5, amended. When the shapes or the types of input and destination disagree,
  nothing is enqueued, acquired or allocated, the destination tensor stays as it was,
  and \<^verbatim>\<open>done\<close> is called once: with an error, unless the call ends at the shortcut
  for an input without elements (initialization check passed, zero elements), which
  reports success.
\<close>

theorem mismatch_rejected:
  assumes "shape (input_tensor e) \<noteq> shape out \<or> dtype (input_tensor e) \<noteq> dtype out"
  shows "trace (after_call e out r) = [] \<and>
         host_callbacks (after_call e out r) = [] \<and>
         output_tensor (after_call e out r) = out \<and>
         after_callbacks e out r = after_call e out r \<and>
         (\<exists>err. done_calls (after_call e out r) =
                  [if zero_element_shortcut e then OK else Some err])"
proof -
  from assms have nr: "\<not> reaches_location_check e out"
    by (auto simp: reaches_location_check_def)
  from sync_validation [OF this, of r]
  have S: "after_call e out r = call_done (validation_status e out) (initial out r)"
    by (simp add: after_call_def)
  have "host_callbacks (after_call e out r) = []"
    unfolding S by simp
  then have same: "after_callbacks e out r = after_call e out r"
    by (simp add: after_callbacks_def run_host_callbacks_def)
  have "\<exists>err. validation_status e out = (if zero_element_shortcut e then OK else Some err)"
    using validation_status_ok [OF nr] by (cases "validation_status e out") auto
  then obtain err where
    "validation_status e out = (if zero_element_shortcut e then OK else Some err)" ..
  then have "done_calls (after_call e out r) =
      [if zero_element_shortcut e then OK else Some err]"
    unfolding S by simp
  then have "\<exists>err. done_calls (after_call e out r) =
                  [if zero_element_shortcut e then OK else Some err]" ..
  with same show ?thesis
    unfolding S by simp
qed

theorem mismatch_rejected_witness:
  "shape (input_tensor array_call) \<noteq> shape output_transposed \<and>
   \<not> zero_element_shortcut array_call \<and>
   trace (after_call array_call output_transposed 1) = [] \<and>
   (\<exists>err. done_calls (after_call array_call output_transposed 1) = [Some err])"
proof -
  have h: "shape (input_tensor array_call) \<noteq> shape output_transposed"
    "\<not> zero_element_shortcut array_call"
    by (simp_all add: call_defs vocabulary_defs num_elements_def)
  from h(1) have "shape (input_tensor array_call) \<noteq> shape output_transposed \<or>
      dtype (input_tensor array_call) \<noteq> dtype output_transposed" ..
  from mismatch_rejected [OF this, of 1] h show ?thesis
    by simp
qed

text \<open>
  Claim C6, as the specification states it, fails: the loop checks and copies leaf by
  leaf, so the copies of the leaves before the first one whose sizes differ are already
  enqueued when the check fails. Here the second leaf differs and the first is copied.
\<close>

theorem leaf_size_mismatch_counterexample:
  "leaves src_tuple = [([0], mem 4096 2048), ([1], mem 6144 2048)] \<and>
   size_bytes (buffer dst_tuple_padded [1]) = 4096 \<and>
   done_calls (after_callbacks padded_call output_declared 1) =
     [Some (RET_CHECK_failure ''input_buffer.size() == output_buffer.size()''
              [Str ''input: '', Num 2048, Str '' output: '', Num 4096])] \<and>
   trace (after_callbacks padded_call output_declared 1) =
     [CallGetOrCreateSubStream (Stream 10 tpu1),
      CallAllocateShapedBuffer 1 (TupleShape [ArrayShape [512], ArrayShape [512]]) 1,
      CallWaitForDefinitionEventOnStream (Stream 20 tpu1),
      CallThenWaitFor (Stream 20 tpu1) (Stream 1 tpu1),
      CallThenWaitFor (Stream 2 tpu1) (Stream 1 tpu1),
      CallEnqueueOnTpuDeviceSendRecvLocal (Stream 20 tpu1) (mem 4096 2048) (mem 8192 2048),
      CallReturnSubStream (Stream 10 tpu1) (Stream 20 tpu1)]"
  by (simp add: call_defs model_defs)

text \<open>
  Claim C6, amended. When the call gets to the copy stage and some source leaf differs in
  size from its destination leaf, \<^verbatim>\<open>done\<close> is called once, with an error, and no host
  callback is attached; the copies enqueued are those of the first \<open>k\<close> leaves, all of
  them before the first leaf whose sizes differ, so no copy is enqueued for that leaf or
  any later one; no index table is written and no definition event is recorded, the
  destination tensor holding its new buffers without one; the substream is returned.
  When the enqueue calls for the leaves before the first differing one all succeed, the
  error is the internal error of the size check, naming both sizes, and every leaf
  before that one has been copied.
\<close>

theorem leaf_size_mismatch:
  assumes "reaches_acquisition e out" and "chosen_stream e = Some st"
    and "source_buffers e = Some ib" and "xla_tensor out = Some xo"
    and "\<not> has_shaped_buffer xo" and "destination_buffers e = Some ob"
    and "\<exists>l\<in>set (leaves ib). \<not> sizes_agree ob l"
  shows "(\<exists>err. done_calls (after_call e out r) = [Some err]) \<and>
     host_callbacks (after_call e out r) = [] \<and>
     after_callbacks e out r = after_call e out r \<and>
     output_tensor (after_call e out r) =
       out\<lparr>xla_tensor := Some (xo\<lparr>shaped_buffer := Some ob\<rparr>)\<rparr> \<and>
     length (takeWhile (sizes_agree ob) (leaves ib)) < length (leaves ib) \<and>
     (\<exists>k \<le> length (takeWhile (sizes_agree ob) (leaves ib)).
        trace (after_call e out r) =
          acquire_events e @ allocate_events e @ wait_events e st ob @
          map (leaf_copy st ob) (take k (leaves ib)) @ release_events (master_stream e) st) \<and>
     filter is_index_table_write (trace (after_call e out r)) = [] \<and>
     filter is_ThenRecordEvent (trace (after_call e out r)) = [] \<and>
     ((\<forall>l\<in>set (takeWhile (sizes_agree ob) (leaves ib)).
          EnqueueOnTpuDeviceSendRecvLocal e st (snd l) (buffer ob (fst l)) = OK) \<longrightarrow>
        done_calls (after_call e out r) =
          [Some (size_mismatch_error ob (hd (dropWhile (sizes_agree ob) (leaves ib))))] \<and>
        trace (after_call e out r) =
          acquire_events e @ allocate_events e @ wait_events e st ob @
          map (leaf_copy st ob) (takeWhile (sizes_agree ob) (leaves ib)) @
          release_events (master_stream e) st)"
proof -
  let ?S = "TpuDeviceToDeviceCopy e (initial out r)"
  let ?n = "length (takeWhile (sizes_agree ob) (leaves ib))"
  from assms(7) have short: "?n < length (leaves ib)"
    by (rule takeWhile_short)
  from assms(7) have "\<not> (\<forall>l\<in>set (leaves ib). sizes_agree ob l)" by blast
  with sync_copy_stage [OF assms(1-6), of r] obtain err k w where
    f: "done_calls ?S = [Some err]" "host_callbacks ?S = []"
      "output_tensor ?S = out\<lparr>xla_tensor := Some (xo\<lparr>shaped_buffer := Some ob\<rparr>)\<rparr>"
      "k \<le> ?n"
      "w = [] \<or> k = length (leaves ib) \<and> IsTuple (on_device_shape ob) \<and>
            (w = [CallWriteTupleIndexTablesAsync (host_to_device_stream e)] \<or>
             w = index_table_events e st ob)"
      "trace ?S = acquire_events e @ allocate_events e @ wait_events e st ob @
           map (leaf_copy st ob) (take k (leaves ib)) @ w @
           release_events (master_stream e) st"
    by blast
  from f(4,5) short have "w = []" by auto
  with f(6) have tr: "trace ?S = acquire_events e @ allocate_events e @ wait_events e st ob @
           map (leaf_copy st ob) (take k (leaves ib)) @ release_events (master_stream e) st"
    by simp
  with f(4) have ex: "\<exists>k \<le> ?n. trace ?S =
          acquire_events e @ allocate_events e @ wait_events e st ob @
          map (leaf_copy st ob) (take k (leaves ib)) @ release_events (master_stream e) st"
    by blast
  from tr have none: "filter is_index_table_write (trace ?S) = []"
    "filter is_ThenRecordEvent (trace ?S) = []"
    by simp_all
  from f(2) have same: "run_host_callbacks ?S = ?S"
    by (simp add: run_host_callbacks_def)
  have first: "done_calls ?S =
          [Some (size_mismatch_error ob (hd (dropWhile (sizes_agree ob) (leaves ib))))] \<and>
        trace ?S =
          acquire_events e @ allocate_events e @ wait_events e st ob @
          map (leaf_copy st ob) (takeWhile (sizes_agree ob) (leaves ib)) @
          release_events (master_stream e) st"
    if "\<forall>l\<in>set (takeWhile (sizes_agree ob) (leaves ib)).
          EnqueueOnTpuDeviceSendRecvLocal e st (snd l) (buffer ob (fst l)) = OK"
    using sync_first_mismatch [OF assms that, of r] by simp
  from f(1) have "\<exists>err. done_calls ?S = [Some err]" by blast
  with f(2,3) short ex none same first show ?thesis
    unfolding after_call_def after_callbacks_def by blast
qed

theorem leaf_size_mismatch_witness:
  "reaches_acquisition padded_call output_declared \<and>
   chosen_stream padded_call = Some (Stream 20 tpu1) \<and>
   source_buffers padded_call = Some src_tuple \<and>
   destination_buffers padded_call = Some dst_tuple_padded \<and>
   ([1], mem 6144 2048) \<in> set (leaves src_tuple) \<and>
   \<not> sizes_agree dst_tuple_padded ([1], mem 6144 2048) \<and>
   takeWhile (sizes_agree dst_tuple_padded) (leaves src_tuple) = [([0], mem 4096 2048)] \<and>
   EnqueueOnTpuDeviceSendRecvLocal padded_call (Stream 20 tpu1) (mem 4096 2048)
     (buffer dst_tuple_padded [0]) = OK \<and>
   done_calls (after_call padded_call output_declared 1) =
     [Some (size_mismatch_error dst_tuple_padded ([1], mem 6144 2048))] \<and>
   filter is_ThenRecordEvent (trace (after_call padded_call output_declared 1)) = []"
proof -
  have h: "reaches_acquisition padded_call output_declared"
    "chosen_stream padded_call = Some (Stream 20 tpu1)"
    "source_buffers padded_call = Some src_tuple"
    "xla_tensor output_declared =
       Some \<lparr>shaped_buffer = None, definition_event = None, streams_defined_on = []\<rparr>"
    "\<not> has_shaped_buffer
         \<lparr>shaped_buffer = None, definition_event = None, streams_defined_on = []\<rparr>"
    "destination_buffers padded_call = Some dst_tuple_padded"
    by (simp_all add: padded_call_def tuple_call_def array_call_def input_tuple_def
        output_declared_def vocabulary_defs num_elements_def has_shaped_buffer_def)
  have l: "([1], mem 6144 2048) \<in> set (leaves src_tuple)"
    "\<not> sizes_agree dst_tuple_padded ([1], mem 6144 2048)"
    "takeWhile (sizes_agree dst_tuple_padded) (leaves src_tuple) = [([0], mem 4096 2048)]"
    "hd (dropWhile (sizes_agree dst_tuple_padded) (leaves src_tuple)) = ([1], mem 6144 2048)"
    by (simp_all add: src_tuple_def dst_tuple_padded_def mem_def sizes_agree_def)
  from l(1,2) have m: "\<exists>l\<in>set (leaves src_tuple). \<not> sizes_agree dst_tuple_padded l" ..
  have q: "EnqueueOnTpuDeviceSendRecvLocal padded_call (Stream 20 tpu1) (mem 4096 2048)
     (buffer dst_tuple_padded [0]) = OK"
    by (simp add: padded_call_def tuple_call_def array_call_def)
  from q l(3) have pre:
    "\<forall>l\<in>set (takeWhile (sizes_agree dst_tuple_padded) (leaves src_tuple)).
       EnqueueOnTpuDeviceSendRecvLocal padded_call (Stream 20 tpu1) (snd l)
         (buffer dst_tuple_padded (fst l)) = OK"
    by simp
  note claim = leaf_size_mismatch [OF h m, of 1]
  from claim have none:
    "filter is_ThenRecordEvent (trace (after_call padded_call output_declared 1)) = []"
    by blast
  from claim pre have "done_calls (after_call padded_call output_declared 1) =
      [Some (size_mismatch_error dst_tuple_padded
               (hd (dropWhile (sizes_agree dst_tuple_padded) (leaves src_tuple))))]"
    by blast
  then have err: "done_calls (after_call padded_call output_declared 1) =
      [Some (size_mismatch_error dst_tuple_padded ([1], mem 6144 2048))]"
    by (simp only: l(4))
  from h(1,2,3,6) l(1,2,3) q err none show ?thesis
    by (intro conjI)
qed

text \<open>
  Claim C7. For a tuple destination that gets to the copy stage: when the call succeeds,
  the trace is the acquisition, the allocation and the waits (none of them a leaf copy),
  then the copies of all leaves, then the write of the index tables on the
  host-to-device stream, then the wait of the chosen stream for the host-to-device
  stream, then the record of the definition event on the chosen stream. When the call
  fails no definition event is recorded, and an index-table write, if there is one,
  comes after the copies of all leaves.
\<close>

theorem index_tables_before_definition_event:
  assumes "reaches_acquisition e out" and "chosen_stream e = Some st"
    and "source_buffers e = Some ib" and "xla_tensor out = Some xo"
    and "\<not> has_shaped_buffer xo" and "destination_buffers e = Some ob"
    and "IsTuple (on_device_shape ob)"
  shows "filter is_leaf_copy (acquire_events e @ allocate_events e @ wait_events e st ob) = [] \<and>
     filter is_index_table_write
       (acquire_events e @ allocate_events e @ wait_events e st ob @
        map (leaf_copy st ob) (leaves ib)) = [] \<and>
     ((done_calls (after_call e out r) = [] \<and>
       trace (after_call e out r) =
         acquire_events e @ allocate_events e @ wait_events e st ob @
         map (leaf_copy st ob) (leaves ib) @
         [CallWriteTupleIndexTablesAsync (host_to_device_stream e),
          CallThenWaitFor st (host_to_device_stream e),
          CallThenRecordEvent st (Event (parent (dst_stream e))),
          TensorReferenceRef, CallThenDoHostCallback st])
      \<or>
      ((\<exists>err. done_calls (after_call e out r) = [Some err]) \<and>
       filter is_ThenRecordEvent (trace (after_call e out r)) = [] \<and>
       (\<exists>k w. (w = [] \<or>
                k = length (leaves ib) \<and>
                (w = [CallWriteTupleIndexTablesAsync (host_to_device_stream e)] \<or>
                 w = [CallWriteTupleIndexTablesAsync (host_to_device_stream e),
                      CallThenWaitFor st (host_to_device_stream e)])) \<and>
          trace (after_call e out r) =
            acquire_events e @ allocate_events e @ wait_events e st ob @
            map (leaf_copy st ob) (take k (leaves ib)) @ w @
            release_events (master_stream e) st)))"
proof -
  let ?S = "TpuDeviceToDeviceCopy e (initial out r)"
  let ?tables = "CallWriteTupleIndexTablesAsync (host_to_device_stream e)"
  let ?sync = "CallThenWaitFor st (host_to_device_stream e)"
  from assms(7) have ite: "index_table_events e st ob = [?tables, ?sync]"
    by (simp add: index_table_events_def)
  have pre: "filter is_leaf_copy
       (acquire_events e @ allocate_events e @ wait_events e st ob) = []"
    "filter is_index_table_write
       (acquire_events e @ allocate_events e @ wait_events e st ob @
        map (leaf_copy st ob) (leaves ib)) = []"
    by simp_all
  show ?thesis
  proof (cases "done_calls ?S = []")
    case True
    with sync_copy_stage [OF assms(1-6), of r]
    have "trace ?S = acquire_events e @ allocate_events e @ wait_events e st ob @
        map (leaf_copy st ob) (leaves ib) @ index_table_events e st ob @
        completion_events e st"
      by auto
    with True pre show ?thesis
      by (simp add: ite completion_events_def after_call_def)
  next
    case False
    with sync_copy_stage [OF assms(1-6), of r] obtain err k w where
      f: "done_calls ?S = [Some err]"
        "w = [] \<or> k = length (leaves ib) \<and> IsTuple (on_device_shape ob) \<and>
            (w = [?tables] \<or> w = index_table_events e st ob)"
        "trace ?S = acquire_events e @ allocate_events e @ wait_events e st ob @
           map (leaf_copy st ob) (take k (leaves ib)) @ w @
           release_events (master_stream e) st"
      by blast
    from f(2) have w: "w = [] \<or> k = length (leaves ib) \<and> (w = [?tables] \<or> w = [?tables, ?sync])"
      by (auto simp: ite)
    then have "filter is_ThenRecordEvent w = []" by auto
    with f(3) have none: "filter is_ThenRecordEvent (trace ?S) = []" by simp
    from w f(3) have "\<exists>k w. (w = [] \<or> k = length (leaves ib) \<and>
                (w = [?tables] \<or> w = [?tables, ?sync])) \<and>
          trace ?S = acquire_events e @ allocate_events e @ wait_events e st ob @
            map (leaf_copy st ob) (take k (leaves ib)) @ w @
            release_events (master_stream e) st"
      by blast
    moreover from f(1) have "\<exists>err. done_calls ?S = [Some err]" by blast
    ultimately show ?thesis
      using none pre unfolding after_call_def by blast
  qed
qed

theorem index_tables_before_definition_event_witness:
  "reaches_acquisition tuple_call output_declared \<and>
   chosen_stream tuple_call = Some (Stream 20 tpu1) \<and>
   source_buffers tuple_call = Some src_tuple \<and>
   destination_buffers tuple_call = Some dst_tuple \<and>
   IsTuple (on_device_shape dst_tuple) \<and>
   trace (after_call tuple_call output_declared 1) =
     [CallGetOrCreateSubStream (Stream 10 tpu1),
      CallAllocateShapedBuffer 1 (TupleShape [ArrayShape [512], ArrayShape [512]]) 1,
      CallWaitForDefinitionEventOnStream (Stream 20 tpu1),
      CallThenWaitFor (Stream 20 tpu1) (Stream 1 tpu1),
      CallThenWaitFor (Stream 2 tpu1) (Stream 1 tpu1),
      CallEnqueueOnTpuDeviceSendRecvLocal (Stream 20 tpu1) (mem 4096 2048) (mem 8192 2048),
      CallEnqueueOnTpuDeviceSendRecvLocal (Stream 20 tpu1) (mem 6144 2048) (mem 10240 2048),
      CallWriteTupleIndexTablesAsync (Stream 2 tpu1),
      CallThenWaitFor (Stream 20 tpu1) (Stream 2 tpu1),
      CallThenRecordEvent (Stream 20 tpu1) (Event tpu1),
      TensorReferenceRef, CallThenDoHostCallback (Stream 20 tpu1)]"
proof -
  have h: "reaches_acquisition tuple_call output_declared"
    "chosen_stream tuple_call = Some (Stream 20 tpu1)"
    "source_buffers tuple_call = Some src_tuple"
    "xla_tensor output_declared =
       Some \<lparr>shaped_buffer = None, definition_event = None, streams_defined_on = []\<rparr>"
    "\<not> has_shaped_buffer
         \<lparr>shaped_buffer = None, definition_event = None, streams_defined_on = []\<rparr>"
    "destination_buffers tuple_call = Some dst_tuple"
    "IsTuple (on_device_shape dst_tuple)"
    by (simp_all add: tuple_call_def array_call_def input_tuple_def dst_tuple_def
        output_declared_def vocabulary_defs num_elements_def has_shaped_buffer_def)
  have d: "done_calls (after_call tuple_call output_declared 1) = []"
    by (simp add: call_defs model_defs)
  have p: "acquire_events tuple_call = [CallGetOrCreateSubStream (Stream 10 tpu1)]"
    "allocate_events tuple_call =
       [CallAllocateShapedBuffer 1 (TupleShape [ArrayShape [512], ArrayShape [512]]) 1]"
    "wait_events tuple_call (Stream 20 tpu1) dst_tuple =
       [CallWaitForDefinitionEventOnStream (Stream 20 tpu1),
        CallThenWaitFor (Stream 20 tpu1) (Stream 1 tpu1),
        CallThenWaitFor (Stream 2 tpu1) (Stream 1 tpu1)]"
    "map (leaf_copy (Stream 20 tpu1) dst_tuple) (leaves src_tuple) =
       [CallEnqueueOnTpuDeviceSendRecvLocal (Stream 20 tpu1) (mem 4096 2048) (mem 8192 2048),
        CallEnqueueOnTpuDeviceSendRecvLocal (Stream 20 tpu1) (mem 6144 2048)
          (mem 10240 2048)]"
    "host_to_device_stream tuple_call = Stream 2 tpu1"
    "parent (dst_stream tuple_call) = tpu1"
    by (simp_all add: tuple_call_def array_call_def input_tuple_def src_tuple_def
        dst_tuple_def tpu1_def vocabulary_defs)
  from index_tables_before_definition_event [OF h, of 1] h d p show ?thesis
    by simp
qed

text \<open>
  Claim C8. In every call that gets to the copy stage, the calls made after the
  allocation begin with the wait of the chosen stream for the source's definition
  event; when the transfer manager says the destination buffers cannot be accessed
  now, the wait of the chosen stream for the destination compute stream follows, and
  for a tuple the wait of the host-to-device stream for the destination compute stream.
  No leaf copy precedes them: all copies are in the rest of the trace.
\<close>

theorem waits_before_leaf_copies:
  assumes "reaches_acquisition e out" and "chosen_stream e = Some st"
    and "source_buffers e = Some ib" and "xla_tensor out = Some xo"
    and "\<not> has_shaped_buffer xo" and "destination_buffers e = Some ob"
  shows "filter is_leaf_copy (acquire_events e @ allocate_events e) = [] \<and>
     (\<exists>rest. trace (after_call e out r) =
        acquire_events e @ allocate_events e @
        [CallWaitForDefinitionEventOnStream st] @
        (if CanShapedBufferBeAccessedNow e (parent (dst_stream e)) ob then []
         else CallThenWaitFor st (dst_stream e) #
              (if IsTuple (on_device_shape ob)
               then [CallThenWaitFor (host_to_device_stream e) (dst_stream e)] else [])) @
        rest)"
proof -
  let ?S = "TpuDeviceToDeviceCopy e (initial out r)"
  have "\<exists>rest. trace ?S = acquire_events e @ allocate_events e @ wait_events e st ob @ rest"
  proof (cases "done_calls ?S = []")
    case True
    with sync_copy_stage [OF assms, of r]
    have "trace ?S = acquire_events e @ allocate_events e @ wait_events e st ob @
        (map (leaf_copy st ob) (leaves ib) @ index_table_events e st ob @
         completion_events e st)"
      by auto
    then show ?thesis ..
  next
    case False
    with sync_copy_stage [OF assms, of r] obtain k w where
      "trace ?S = acquire_events e @ allocate_events e @ wait_events e st ob @
           (map (leaf_copy st ob) (take k (leaves ib)) @ w @
            release_events (master_stream e) st)"
      by auto
    then show ?thesis ..
  qed
  then show ?thesis
    by (simp add: wait_events_def after_call_def)
qed

theorem waits_before_leaf_copies_witness:
  "reaches_acquisition tuple_call output_declared \<and>
   chosen_stream tuple_call = Some (Stream 20 tpu1) \<and>
   source_buffers tuple_call = Some src_tuple \<and>
   destination_buffers tuple_call = Some dst_tuple \<and>
   \<not> CanShapedBufferBeAccessedNow tuple_call (parent (dst_stream tuple_call)) dst_tuple \<and>
   (\<exists>rest. trace (after_call tuple_call output_declared 1) =
      [CallGetOrCreateSubStream (Stream 10 tpu1),
       CallAllocateShapedBuffer 1 (TupleShape [ArrayShape [512], ArrayShape [512]]) 1,
       CallWaitForDefinitionEventOnStream (Stream 20 tpu1),
       CallThenWaitFor (Stream 20 tpu1) (Stream 1 tpu1),
       CallThenWaitFor (Stream 2 tpu1) (Stream 1 tpu1)] @ rest)"
proof -
  have h: "reaches_acquisition tuple_call output_declared"
    "chosen_stream tuple_call = Some (Stream 20 tpu1)"
    "source_buffers tuple_call = Some src_tuple"
    "xla_tensor output_declared =
       Some \<lparr>shaped_buffer = None, definition_event = None, streams_defined_on = []\<rparr>"
    "\<not> has_shaped_buffer
         \<lparr>shaped_buffer = None, definition_event = None, streams_defined_on = []\<rparr>"
    "destination_buffers tuple_call = Some dst_tuple"
    by (simp_all add: tuple_call_def array_call_def input_tuple_def
        output_declared_def vocabulary_defs num_elements_def has_shaped_buffer_def)
  have p: "acquire_events tuple_call = [CallGetOrCreateSubStream (Stream 10 tpu1)]"
    "allocate_events tuple_call =
       [CallAllocateShapedBuffer 1 (TupleShape [ArrayShape [512], ArrayShape [512]]) 1]"
    "\<not> CanShapedBufferBeAccessedNow tuple_call (parent (dst_stream tuple_call)) dst_tuple"
    "IsTuple (on_device_shape dst_tuple)"
    "host_to_device_stream tuple_call = Stream 2 tpu1"
    "dst_stream tuple_call = Stream 1 tpu1"
    by (simp_all add: tuple_call_def array_call_def input_tuple_def dst_tuple_def
        tpu1_def vocabulary_defs)
  from waits_before_leaf_copies [OF h, of 1] h p show ?thesis
    by simp
qed

text \<open>
  Claim C9, as the specification states it, fails: at the shortcut for the same memory
  location the destination tensor is assigned the input tensor and shares its buffer
  from then on, so the buffer has one more holder after the call than before it.
\<close>

theorem reference_conservation_counterexample:
  "same_location_shortcut aliased_call output_declared \<and>
   input_refcount (initial output_declared 3) = 3 \<and>
   done_calls (after_callbacks aliased_call output_declared 3) = [OK] \<and>
   input_refcount (after_callbacks aliased_call output_declared 3) = 4"
  by (simp add: call_defs model_defs same_location_shortcut_def reaches_location_check_def
      same_location_def)

text \<open>
  Claim C9, amended. For every call that does not end at the shortcut for the same memory
  location, the reference count of the input's buffer after the callbacks have run is
  what it was before the call; at that shortcut it is one higher, for the destination
  tensor that now shares the buffer. When the function returns the count is higher by
  one more exactly when a host callback is attached: the \<^verbatim>\<open>TensorReference\<close> is then
  taken once, and dropped once by the callback. On every path on which \<^verbatim>\<open>done\<close> is
  called before the function returns no callback is attached and no
  \<^verbatim>\<open>TensorReference\<close> is ever taken.
\<close>

theorem reference_conservation:
  "input_refcount (after_callbacks e out r) =
     (if same_location_shortcut e out then r + 1 else r) \<and>
   input_refcount (after_call e out r) =
     (if same_location_shortcut e out then r + 1 else r) +
     int (length (host_callbacks (after_call e out r))) \<and>
   filter is_reference_event (trace (after_call e out r)) =
     (if host_callbacks (after_call e out r) = [] then [] else [TensorReferenceRef]) \<and>
   filter is_reference_event (trace (after_callbacks e out r)) =
     (if host_callbacks (after_call e out r) = [] then []
      else [TensorReferenceRef, TensorReferenceUnref]) \<and>
   (done_calls (after_call e out r) \<noteq> [] \<longrightarrow> host_callbacks (after_call e out r) = [])"
proof -
  let ?S = "TpuDeviceToDeviceCopy e (initial out r)"
  from sync_outcome [of e out r] show ?thesis
  proof (elim disjE conjE exE)
    fix status
    assume "done_calls ?S = [status]" "host_callbacks ?S = []"
      "input_refcount ?S = (if same_location_shortcut e out then r + 1 else r)"
      "filter is_reference_event (trace ?S) = []"
    then show ?thesis
      by (simp add: after_call_def after_callbacks_def run_host_callbacks_none)
  next
    fix st
    assume "reaches_acquisition e out" "done_calls ?S = []"
      "host_callbacks ?S = [(st, HostCallback (master_stream e) st)]"
      "input_refcount ?S = r + 1" "filter is_reference_event (trace ?S) = [TensorReferenceRef]"
    moreover from this(1) have "\<not> same_location_shortcut e out"
      by (rule reaches_acquisition_no_shortcut)
    ultimately show ?thesis
      by (simp add: after_call_def after_callbacks_def run_host_callbacks_one)
  qed
qed

theorem reference_conservation_witness:
  "\<not> same_location_shortcut array_call output_declared \<and>
   input_refcount (after_call array_call output_declared 3) = 4 \<and>
   input_refcount (after_callbacks array_call output_declared 3) = 3 \<and>
   \<not> same_location_shortcut array_call output_allocated \<and>
   done_calls (after_call array_call output_allocated 3) \<noteq> [] \<and>
   host_callbacks (after_call array_call output_allocated 3) = [] \<and>
   input_refcount (after_callbacks array_call output_allocated 3) = 3 \<and>
   filter is_reference_event (trace (after_callbacks array_call output_allocated 3)) = [] \<and>
   same_location_shortcut aliased_call output_declared \<and>
   input_refcount (after_callbacks aliased_call output_declared 3) = 4 \<and>
   filter is_reference_event (trace (after_callbacks aliased_call output_declared 3)) = []"
proof -
  have h: "length (host_callbacks (after_call array_call output_declared 3)) = 1"
    "done_calls (after_call array_call output_allocated 3) \<noteq> []"
    "done_calls (after_call aliased_call output_declared 3) \<noteq> []"
    by (simp_all add: call_defs model_defs)
  have n: "\<not> same_location_shortcut array_call output_declared"
    "\<not> same_location_shortcut array_call output_allocated"
    "same_location_shortcut aliased_call output_declared"
    by (simp_all add: call_defs vocabulary_defs num_elements_def)
  from reference_conservation [of array_call output_declared 3]
    reference_conservation [of array_call output_allocated 3]
    reference_conservation [of aliased_call output_declared 3] h n show ?thesis
    by simp
qed

text \<open>
  Claim C10, as the specification states it, fails: an input without elements has no
  backing buffers and its copy succeeds, and so does a copy between streams that report
  the same memory location into a destination that already holds buffers.
\<close>

theorem missing_buffers_rejected_counterexample:
  "source_buffers empty_call = None \<and>
   done_calls (after_callbacks empty_call output_empty 1) = [OK] \<and>
   already_allocated output_allocated \<and>
   done_calls (after_callbacks aliased_call output_allocated 1) = [OK]"
  by (simp add: call_defs model_defs source_buffers_def already_allocated_def)

text \<open>
  Claim C10, amended. When the source has no backing buffers or the destination already
  has some, no host callback is attached, and the only calls made are the request for a
  substream and its return: nothing is allocated, waited for or copied, and a substream
  that was handed out is returned. \<^verbatim>\<open>done\<close> is called once: with an error, unless
  the call ends at the shortcut for an input without elements or at the shortcut for
  the same memory location, which report success.
\<close>

theorem missing_buffers_rejected:
  assumes "source_buffers e = None \<or> already_allocated out"
  shows "(\<not> zero_element_shortcut e \<and> \<not> same_location_shortcut e out \<longrightarrow>
            (\<exists>err. done_calls (after_call e out r) = [Some err])) \<and>
         (zero_element_shortcut e \<or> same_location_shortcut e out \<longrightarrow>
            done_calls (after_call e out r) = [OK]) \<and>
         host_callbacks (after_call e out r) = [] \<and>
         after_callbacks e out r = after_call e out r \<and>
         trace (after_call e out r) =
           (if reaches_acquisition e out
            then acquire_events e @
                 (case chosen_stream e of
                    Some st \<Rightarrow> release_events (master_stream e) st
                  | None \<Rightarrow> [])
            else [])"
proof -
  let ?S = "TpuDeviceToDeviceCopy e (initial out r)"
  have main: "(\<not> zero_element_shortcut e \<and> \<not> same_location_shortcut e out \<longrightarrow>
            (\<exists>err. done_calls ?S = [Some err])) \<and>
         (zero_element_shortcut e \<or> same_location_shortcut e out \<longrightarrow>
            done_calls ?S = [OK]) \<and>
         host_callbacks ?S = [] \<and>
         trace ?S =
           (if reaches_acquisition e out
            then acquire_events e @
                 (case chosen_stream e of
                    Some st \<Rightarrow> release_events (master_stream e) st
                  | None \<Rightarrow> [])
            else [])"
  proof (cases "reaches_acquisition e out")
    case reach: True
    then have no: "\<not> zero_element_shortcut e" "\<not> same_location_shortcut e out"
      by (auto simp: reaches_acquisition_def reaches_location_check_def
          zero_element_shortcut_def same_location_shortcut_def)
    show ?thesis
    proof (cases "chosen_stream e")
      case None
      from sync_no_stream [OF reach None, of r] reach None no show ?thesis
        by simp
    next
      case (Some st)
      from assms have "source_buffers e = None \<or> xla_tensor out = None \<or>
          already_allocated out"
        by blast
      from sync_precheck [OF reach Some this, of r] reach Some no show ?thesis
        by simp
    qed
  next
    case False
    show ?thesis
    proof (cases "reaches_location_check e out")
      case True
      with False have same: "same_location e"
        by (simp add: reaches_acquisition_def)
      from True same have "same_location_shortcut e out"
        by (simp add: same_location_shortcut_def)
      with sync_same_location [OF True same, of r] False show ?thesis
        by simp
    next
      case nr: False
      then have "\<not> same_location_shortcut e out"
        by (simp add: same_location_shortcut_def)
      with sync_validation [OF nr, of r] validation_status_ok [OF nr] False show ?thesis
        by (cases "validation_status e out") auto
    qed
  qed
  then have "host_callbacks (after_call e out r) = []"
    by (simp add: after_call_def)
  then have "after_callbacks e out r = after_call e out r"
    by (simp add: after_callbacks_def run_host_callbacks_def)
  with main show ?thesis
    by (simp add: after_call_def)
qed

theorem missing_buffers_rejected_witness:
  "already_allocated output_allocated \<and>
   \<not> zero_element_shortcut array_call \<and>
   \<not> same_location_shortcut array_call output_allocated \<and>
   (\<exists>err. done_calls (after_call array_call output_allocated 1) = [Some err]) \<and>
   trace (after_call array_call output_allocated 1) =
     [CallGetOrCreateSubStream (Stream 10 tpu1),
      CallReturnSubStream (Stream 10 tpu1) (Stream 20 tpu1)] \<and>
   source_buffers empty_call = None \<and> zero_element_shortcut empty_call \<and>
   done_calls (after_call empty_call output_empty 1) = [OK]"
proof -
  have h: "already_allocated output_allocated"
    "\<not> zero_element_shortcut array_call"
    "\<not> same_location_shortcut array_call output_allocated"
    "reaches_acquisition array_call output_allocated"
    by (simp_all add: call_defs vocabulary_defs num_elements_def has_shaped_buffer_def)
  have t: "acquire_events array_call = [CallGetOrCreateSubStream (Stream 10 tpu1)]"
    "chosen_stream array_call = Some (Stream 20 tpu1)"
    "release_events (master_stream array_call) (Stream 20 tpu1) =
       [CallReturnSubStream (Stream 10 tpu1) (Stream 20 tpu1)]"
    by (simp_all add: call_defs vocabulary_defs)
  have z: "source_buffers empty_call = None" "zero_element_shortcut empty_call"
    by (simp_all add: call_defs vocabulary_defs num_elements_def)
  from h(1) have a: "source_buffers array_call = None \<or> already_allocated output_allocated" ..
  from z(1) have b: "source_buffers empty_call = None \<or> already_allocated output_empty" ..
  from missing_buffers_rejected [OF a, of 1] missing_buffers_rejected [OF b, of 1] h t z
  show ?thesis
    by simp
qed

end
